theory Spec2Isabelle
  imports Main "HOL-Library.Sublist"
begin

section \<open>Values of the Go program\<close>

text \<open>
  The package echoi18n is a thin layer between the echo web framework and the go-i18n
  translation library. Go values are modelled as follows: a \<^verbatim>\<open>[]byte\<close> and a
  \<^verbatim>\<open>string\<close> are character lists; an \<^verbatim>\<open>error\<close> is its \<^verbatim>\<open>Error()\<close> text; a
  \<^verbatim>\<open>language.Tag\<close> is identified with the text its \<^verbatim>\<open>String()\<close> method prints; a
  pointer \<^verbatim>\<open>*Config\<close> is an address into a heap of configuration structs, with
  \<open>None\<close> for the nil pointer. A call either returns or panics.
\<close>

type_synonym bytes = string
type_synonym go_error = string

datatype tag = Tag (String: string)

definition language_Und :: tag where
  "language_Und = Tag ''und''"

definition language_English :: tag where
  "language_English = Tag ''en''"

definition language_Chinese :: tag where
  "language_Chinese = Tag ''zh''"

datatype panic_value =
    PanicErr go_error
  | NilDereference
  | NilInterfaceConversion

datatype 'a res = Ok 'a | Panics panic_value

subsection \<open>The request context\<close>

text \<open>
  \<^verbatim>\<open>echo.Context\<close> carries the \<^verbatim>\<open>*http.Request\<close> (possibly nil) and a key/value
  store of \<^verbatim>\<open>interface{}\<close> values. Of a request only the parsed URL query
  (\<^verbatim>\<open>url.Values\<close>) and the header (\<^verbatim>\<open>http.Header\<close>) are read; both map a key to
  the list of its values. An \<^verbatim>\<open>interface{}\<close> held in the store is the untyped nil, a
  (possibly nil) \<^verbatim>\<open>*Config\<close>, or a value of some other type.
\<close>

datatype any = nil_any | Config_ptr "nat option" | other_any

record http_Request =
  URL_Query :: "string \<rightharpoonup> string list"
  Header :: "string \<rightharpoonup> string list"

record echo_Context =
  Request :: "http_Request option"
  store :: "string \<rightharpoonup> any"

text \<open>\<^verbatim>\<open>url.Values.Get\<close> and \<^verbatim>\<open>http.Header.Get\<close>: the first value of the key, or the
  empty string when the key has no value. The header key \<^verbatim>\<open>Accept-Language\<close> is
  already in canonical form. \<^verbatim>\<open>c.QueryParam(name)\<close> is \<^verbatim>\<open>Get\<close> on the query of the
  context's request.\<close>

definition Values_Get :: "(string \<rightharpoonup> string list) \<Rightarrow> string \<Rightarrow> string" where
  "Values_Get v key = (case v key of None \<Rightarrow> [] | Some [] \<Rightarrow> [] | Some (x # _) \<Rightarrow> x)"

definition QueryParam :: "http_Request \<Rightarrow> string \<Rightarrow> string" where
  "QueryParam r name = Values_Get (URL_Query r) name"

definition Header_Get :: "http_Request \<Rightarrow> string \<Rightarrow> string" where
  "Header_Get r key = Values_Get (Header r) key"

text \<open>\<^verbatim>\<open>c.Get(key)\<close>: the stored value, nil when the key was never set.\<close>

definition Get :: "echo_Context \<Rightarrow> string \<Rightarrow> any" where
  "Get c key = (case store c key of None \<Rightarrow> nil_any | Some v \<Rightarrow> v)"

definition Set :: "echo_Context \<Rightarrow> string \<Rightarrow> any \<Rightarrow> echo_Context" where
  "Set c key val = c\<lparr>store := (store c)(key \<mapsto> val)\<rparr>"

subsection \<open>The default language handler\<close>

text \<open>
  \<^verbatim>\<open>
  func defaultLangHandler(c echo.Context, defaultLang string) string {
      if c == nil || c.Request() == nil { return defaultLang }
      var lang string
      lang = c.QueryParam("lang")
      if lang != "" { return lang }
      lang = c.Request().Header.Get("Accept-Language")
      if lang != "" { return lang }
      return defaultLang
  }
  \<close>
\<close>

definition defaultLangHandler :: "echo_Context option \<Rightarrow> string \<Rightarrow> string" where
  "defaultLangHandler c defaultLang =
     (case c of
        None \<Rightarrow> defaultLang
      | Some ctx \<Rightarrow>
          (case Request ctx of
             None \<Rightarrow> defaultLang
           | Some r \<Rightarrow>
               (let lang = QueryParam r ''lang'' in
                if lang \<noteq> [] then lang
                else (let lang = Header_Get r ''Accept-Language'' in
                      if lang \<noteq> [] then lang else defaultLang))))"


section \<open>The collaborators\<close>

text \<open>
  The package calls into go-i18n (\<^verbatim>\<open>i18n.NewBundle\<close>, \<^verbatim>\<open>RegisterUnmarshalFunc\<close>,
  \<^verbatim>\<open>ParseMessageFileBytes\<close>, \<^verbatim>\<open>i18n.NewLocalizer\<close>, \<^verbatim>\<open>Localizer.Localize\<close>) and
  into the standard library (\<^verbatim>\<open>os.ReadFile\<close>, \<^verbatim>\<open>path.Join\<close>). None of that code
  belongs to the repository, so every such function is a parameter of the model and
  the theorems below hold for all of them. The type \<open>'b\<close> stands for the contents of an
  \<^verbatim>\<open>i18n.Bundle\<close> and \<open>'l\<close> for an \<^verbatim>\<open>i18n.Localizer\<close>. A Go result pair
  \<^verbatim>\<open>(value, error)\<close> of a collaborator is a sum: the callers in this package ignore the
  value whenever the error is not nil. \<^verbatim>\<open>Localizer.Localize\<close> receives a pointer that
  may be nil, so its result allows for a panic.
\<close>

datatype unmarshal_func = yaml_Unmarshal | json_Unmarshal | other_Unmarshal nat

datatype plural = PluralInt int | PluralString string

record LocalizeConfig =
  MessageID :: string
  TemplateData :: "(string \<times> string) list option"
  PluralCount :: "plural option"

record ('b, 'l) env =
  os_ReadFile :: "string \<Rightarrow> go_error + bytes"
  path_Join :: "string list \<Rightarrow> string"
  i18n_NewBundle :: "tag \<Rightarrow> 'b"
  RegisterUnmarshalFunc :: "'b \<Rightarrow> string \<Rightarrow> unmarshal_func option \<Rightarrow> 'b"
  ParseMessageFileBytes :: "'b \<Rightarrow> bytes \<Rightarrow> string \<Rightarrow> go_error + 'b"
  i18n_NewLocalizer :: "'b option \<Rightarrow> string \<Rightarrow> 'l"
  Localizer_Localize :: "'l \<Rightarrow> LocalizeConfig option \<Rightarrow> (go_error + string) res"

section \<open>Loaders\<close>

text \<open>
  \<^verbatim>\<open>
  type Loader interface { LoadMessage(path string) ([]byte, error) }
  type LoaderFunc func(path string) ([]byte, error)
  func (f LoaderFunc) LoadMessage(path string) ([]byte, error) { return f(path) }
  type EmbedLoader struct { FS embed.FS }
  func (e *EmbedLoader) LoadMessage(path string) ([]byte, error) { return e.FS.ReadFile(path) }
  \<close>
  An \<^verbatim>\<open>embed.FS\<close> is represented by its \<^verbatim>\<open>ReadFile\<close> function.
\<close>

datatype loader =
    LoaderFunc "string \<Rightarrow> go_error + bytes"
  | EmbedLoader "string \<Rightarrow> go_error + bytes"

fun LoadMessage :: "loader \<Rightarrow> string \<Rightarrow> go_error + bytes" where
  "LoadMessage (LoaderFunc f) path = f path"
| "LoadMessage (EmbedLoader FS_ReadFile) path = FS_ReadFile path"

section \<open>Configuration\<close>

text \<open>
  The struct \<^verbatim>\<open>Config\<close>. A nil slice, a nil interface and a nil function are
  \<open>None\<close>. The unexported fields \<^verbatim>\<open>bundle\<close> (here \<open>cfg_bundle\<close>) and \<^verbatim>\<open>localizerMap\<close> are pointers that
  only this package assigns, each time to an object it has just created, so they are
  held by value. The mutex \<^verbatim>\<open>mu\<close> guards the assignment of \<^verbatim>\<open>localizerMap\<close> and has
  no sequential effect.
\<close>

record ('b, 'l) Config =
  DefaultLanguage :: tag
  AcceptLanguages :: "tag list option"
  FormatBundleFile :: string
  Loader :: "loader option"
  RootPath :: string
  LangHandler :: "(echo_Context option \<Rightarrow> string \<Rightarrow> string) option"
  cfg_bundle :: "'b option"
  localizerMap :: "(string \<rightharpoonup> 'l) option"
  UnmarshalFunc :: "unmarshal_func option"

text \<open>
  The state of the program: the heap of \<^verbatim>\<open>Config\<close> structs, and a record of the
  calls made to the loader and to the bundle's parser, in order.
\<close>

datatype event =
    LoadMessage_call string
  | ParseMessageFileBytes_call bytes string

record ('b, 'l) world =
  heap :: "nat \<rightharpoonup> ('b, 'l) Config"
  trace :: "event list"

definition localsKey :: string where
  "localsKey = ''echoi18n''"

text \<open>The package variable \<^verbatim>\<open>ConfigDefault\<close> points to one struct, allocated when the
  package is initialised; its address is fixed.\<close>

definition ConfigDefault :: nat where
  "ConfigDefault = 0"

definition ConfigDefault_value :: "('b, 'l) env \<Rightarrow> ('b, 'l) Config" where
  "ConfigDefault_value env =
     \<lparr> DefaultLanguage = language_English,
       AcceptLanguages = Some [language_Chinese, language_English],
       FormatBundleFile = ''yaml'',
       Loader = Some (LoaderFunc (os_ReadFile env)),
       RootPath = ''./example/localize'',
       LangHandler = Some defaultLangHandler,
       cfg_bundle = None,
       localizerMap = None,
       UnmarshalFunc = Some yaml_Unmarshal \<rparr>"

text \<open>
  \<^verbatim>\<open>configDefault(config ...*Config) *Config\<close>: with no argument the shared pointer is
  returned; otherwise the first argument is dereferenced (a nil pointer panics), each
  of its zero fields is assigned, and the same pointer is returned.
\<close>

definition configDefault ::
  "('b, 'l) env \<Rightarrow> nat option list \<Rightarrow> ('b, 'l) world \<Rightarrow> nat res \<times> ('b, 'l) world" where
  "configDefault env config w =
     (case config of
        [] \<Rightarrow> (Ok ConfigDefault, w)
      | p # _ \<Rightarrow>
          (case p of
             None \<Rightarrow> (Panics NilDereference, w)
           | Some a \<Rightarrow>
               (case heap w a of
                  None \<Rightarrow> (Panics NilDereference, w)
                | Some cfg0 \<Rightarrow>
                    (let cfg1 = (if DefaultLanguage cfg0 = language_Und
                                 then cfg0\<lparr>DefaultLanguage := language_English\<rparr> else cfg0);
                         cfg2 = (if AcceptLanguages cfg1 = None
                                 then cfg1\<lparr>AcceptLanguages := Some [language_Chinese, language_English]\<rparr>
                                 else cfg1);
                         cfg3 = (if FormatBundleFile cfg2 = []
                                 then cfg2\<lparr>FormatBundleFile := ''yaml''\<rparr> else cfg2);
                         cfg4 = (if Loader cfg3 = None
                                 then cfg3\<lparr>Loader := Some (LoaderFunc (os_ReadFile env))\<rparr> else cfg3);
                         cfg5 = (if RootPath cfg4 = []
                                 then cfg4\<lparr>RootPath := ''./example/localize''\<rparr> else cfg4);
                         cfg6 = (if LangHandler cfg5 = None
                                 then cfg5\<lparr>LangHandler := Some defaultLangHandler\<rparr> else cfg5);
                         cfg7 = (if UnmarshalFunc cfg6 = None
                                 then cfg6\<lparr>UnmarshalFunc := Some yaml_Unmarshal\<rparr> else cfg6)
                     in (Ok a, w\<lparr>heap := (heap w)(a \<mapsto> cfg7)\<rparr>)))))"

section \<open>Middleware construction\<close>

text \<open>
  \<^verbatim>\<open>
  func (c *Config) loadMessage(filepath string) {
      buf, err := c.Loader.LoadMessage(filepath)
      if err != nil { panic(err) }
      if _, err := c.bundle.ParseMessageFileBytes(buf, filepath); err != nil { panic(err) }
  }
  \<close>
  The receiver is an address; the parser mutates the bundle the struct points to.
\<close>

definition loadMessage ::
  "('b, 'l) env \<Rightarrow> nat \<Rightarrow> string \<Rightarrow> ('b, 'l) world \<Rightarrow> unit res \<times> ('b, 'l) world" where
  "loadMessage env c filepath w =
     (case heap w c of
        None \<Rightarrow> (Panics NilDereference, w)
      | Some cfg \<Rightarrow>
          (case Loader cfg of
             None \<Rightarrow> (Panics NilDereference, w)
           | Some ld \<Rightarrow>
               (let w1 = w\<lparr>trace := trace w @ [LoadMessage_call filepath]\<rparr> in
                case LoadMessage ld filepath of
                  Inl err \<Rightarrow> (Panics (PanicErr err), w1)
                | Inr buf \<Rightarrow>
                    (case cfg_bundle cfg of
                       None \<Rightarrow> (Panics NilDereference, w1)
                     | Some b \<Rightarrow>
                         (let w2 = w1\<lparr>trace := trace w1 @ [ParseMessageFileBytes_call buf filepath]\<rparr> in
                          case ParseMessageFileBytes env b buf filepath of
                            Inl err \<Rightarrow> (Panics (PanicErr err), w2)
                          | Inr b' \<Rightarrow>
                              (Ok (), w2\<lparr>heap := (heap w2)(c \<mapsto> cfg\<lparr>cfg_bundle := Some b'\<rparr>)\<rparr>))))))"

text \<open>Ranging over a slice: a nil slice has no elements.\<close>

definition elems :: "'a list option \<Rightarrow> 'a list" where
  "elems s = (case s of None \<Rightarrow> [] | Some xs \<Rightarrow> xs)"

text \<open>
  \<^verbatim>\<open>
  func (c *Config) loadMessages() {
      for _, lang := range c.AcceptLanguages {
          bundleFilePath := fmt.Sprintf("%s.%s", lang.String(), c.FormatBundleFile)
          filepath := path.Join(c.RootPath, bundleFilePath)
          c.loadMessage(filepath)
      }
  }
  \<close>
  The range expression is evaluated once; the loop body reads the struct again.
\<close>

fun loadMessages_range ::
  "('b, 'l) env \<Rightarrow> nat \<Rightarrow> tag list \<Rightarrow> ('b, 'l) world \<Rightarrow> unit res \<times> ('b, 'l) world" where
  "loadMessages_range env c [] w = (Ok (), w)"
| "loadMessages_range env c (lang # rest) w =
     (case heap w c of
        None \<Rightarrow> (Panics NilDereference, w)
      | Some cfg \<Rightarrow>
          (let bundleFilePath = String lang @ ''.'' @ FormatBundleFile cfg;
               filepath = path_Join env [RootPath cfg, bundleFilePath]
           in case loadMessage env c filepath w of
                (Panics p, w') \<Rightarrow> (Panics p, w')
              | (Ok _, w') \<Rightarrow> loadMessages_range env c rest w'))"

definition loadMessages ::
  "('b, 'l) env \<Rightarrow> nat \<Rightarrow> ('b, 'l) world \<Rightarrow> unit res \<times> ('b, 'l) world" where
  "loadMessages env c w =
     (case heap w c of
        None \<Rightarrow> (Panics NilDereference, w)
      | Some cfg \<Rightarrow>
          loadMessages_range env c (elems (AcceptLanguages cfg)) w)"

text \<open>
  \<^verbatim>\<open>
  func (c *Config) initLocalizerMap() {
      localizerMap := &sync.Map{}
      for _, lang := range c.AcceptLanguages {
          s := lang.String()
          localizerMap.Store(s, i18n.NewLocalizer(c.bundle, s))
      }
      lang := c.DefaultLanguage.String()
      if _, ok := localizerMap.Load(lang); !ok {
          localizerMap.Store(lang, i18n.NewLocalizer(c.bundle, lang))
      }
      c.mu.Lock(); c.localizerMap = localizerMap; c.mu.Unlock()
  }
  \<close>
\<close>

fun store_localizers ::
  "('b, 'l) env \<Rightarrow> 'b option \<Rightarrow> tag list \<Rightarrow> (string \<rightharpoonup> 'l) \<Rightarrow> (string \<rightharpoonup> 'l)" where
  "store_localizers env b [] m = m"
| "store_localizers env b (lang # rest) m =
     (let s = String lang in store_localizers env b rest (m(s \<mapsto> i18n_NewLocalizer env b s)))"

text \<open>The map the function builds, before it is assigned to the field.\<close>

definition new_localizerMap :: "('b, 'l) env \<Rightarrow> ('b, 'l) Config \<Rightarrow> (string \<rightharpoonup> 'l)" where
  "new_localizerMap env cfg =
     (let m0 = store_localizers env (cfg_bundle cfg) (elems (AcceptLanguages cfg)) Map.empty;
          lang = String (DefaultLanguage cfg)
      in if m0 lang = None then m0(lang \<mapsto> i18n_NewLocalizer env (cfg_bundle cfg) lang) else m0)"

definition initLocalizerMap ::
  "('b, 'l) env \<Rightarrow> nat \<Rightarrow> ('b, 'l) world \<Rightarrow> unit res \<times> ('b, 'l) world" where
  "initLocalizerMap env c w =
     (case heap w c of
        None \<Rightarrow> (Panics NilDereference, w)
      | Some cfg \<Rightarrow>
          (Ok (), w\<lparr>heap := (heap w)(c \<mapsto> cfg\<lparr>localizerMap := Some (new_localizerMap env cfg)\<rparr>)\<rparr>))"

text \<open>
  \<^verbatim>\<open>
  func NewMiddleware(config ...*Config) echo.MiddlewareFunc {
      cfg := configDefault(config...)
      bundle := i18n.NewBundle(cfg.DefaultLanguage)
      bundle.RegisterUnmarshalFunc(cfg.FormatBundleFile, cfg.UnmarshalFunc)
      cfg.bundle = bundle
      cfg.loadMessages()
      cfg.initLocalizerMap()
      return func(next echo.HandlerFunc) echo.HandlerFunc {
          return func(c echo.Context) error { c.Set(localsKey, cfg); return next(c) }
      }
  }
  \<close>
  The function value returned is a closure over the pointer \<^verbatim>\<open>cfg\<close>, and is
  represented by that pointer.
\<close>

datatype MiddlewareFunc = MiddlewareFunc (captured_cfg: nat)

definition NewMiddleware ::
  "('b, 'l) env \<Rightarrow> nat option list \<Rightarrow> ('b, 'l) world \<Rightarrow> MiddlewareFunc res \<times> ('b, 'l) world" where
  "NewMiddleware env config w =
     (case configDefault env config w of
        (Panics p, w1) \<Rightarrow> (Panics p, w1)
      | (Ok cfg, w1) \<Rightarrow>
          (case heap w1 cfg of
             None \<Rightarrow> (Panics NilDereference, w1)
           | Some c \<Rightarrow>
               (let b0 = i18n_NewBundle env (DefaultLanguage c);
                    b1 = RegisterUnmarshalFunc env b0 (FormatBundleFile c) (UnmarshalFunc c);
                    w2 = w1\<lparr>heap := (heap w1)(cfg \<mapsto> c\<lparr>cfg_bundle := Some b1\<rparr>)\<rparr>
                in case loadMessages env cfg w2 of
                     (Panics p, w3) \<Rightarrow> (Panics p, w3)
                   | (Ok _, w3) \<Rightarrow>
                       (case initLocalizerMap env cfg w3 of
                          (Panics p, w4) \<Rightarrow> (Panics p, w4)
                        | (Ok _, w4) \<Rightarrow> (Ok (MiddlewareFunc cfg), w4)))))"

text \<open>Running the middleware on a request: the configuration pointer is stored in the
  context and the next handler is called with that context.\<close>

definition run_middleware :: "MiddlewareFunc \<Rightarrow> (echo_Context \<Rightarrow> 'r) \<Rightarrow> echo_Context \<Rightarrow> 'r" where
  "run_middleware mw next c = next (Set c localsKey (Config_ptr (Some (captured_cfg mw))))"

section \<open>Localize and MustLocalize\<close>

datatype params =
    param_string string
  | param_LocalizeConfig "LocalizeConfig option"
  | param_other

definition Errorf :: "string \<Rightarrow> go_error" where
  "Errorf v = ''i18n.Localize error: '' @ v"

text \<open>
  \<^verbatim>\<open>
  func Localize(c echo.Context, params interface{}) (string, error) {
      local := c.Get(localsKey)
      if local == nil { return "", fmt.Errorf("i18n.Localize error: %v", "Config is nil") }
      appCfg, ok := local.(*Config)
      if !ok { return "", fmt.Errorf("i18n.Localize error: %v", "Config is not *Config type") }
      lang := appCfg.LangHandler(c, appCfg.DefaultLanguage.String())
      localizer, _ := appCfg.localizerMap.Load(lang)
      if localizer == nil {
          defaultLang := appCfg.DefaultLanguage.String()
          localizer, _ = appCfg.localizerMap.Load(defaultLang)
      }
      var localizeConfig *i18n.LocalizeConfig
      switch paramValue := params.(type) {
      case string: localizeConfig = &i18n.LocalizeConfig{MessageID: paramValue}
      case *i18n.LocalizeConfig: localizeConfig = paramValue
      default: return "", fmt.Errorf("i18n.Localize error: %v", "Invalid params type")
      }
      message, err := localizer.(*i18n.Localizer).Localize(localizeConfig)
      if err != nil { return "", fmt.Errorf("i18n.Localize error: %v", err) }
      return message, nil
  }
  \<close>
  The result pair is kept as a pair. A nil context, a nil \<^verbatim>\<open>*Config\<close>, a nil
  \<^verbatim>\<open>LangHandler\<close> and a nil \<^verbatim>\<open>localizerMap\<close> panic where they are dereferenced, and
  the type assertion panics on a nil localizer.
\<close>

text \<open>The two \<^verbatim>\<open>Load\<close> calls: the localizer stored under \<^verbatim>\<open>lang\<close>, and when there is
  none (the loaded value is nil) the one stored under the default language, which may
  be missing as well.\<close>

definition load_localizer :: "(string \<rightharpoonup> 'l) \<Rightarrow> string \<Rightarrow> string \<Rightarrow> 'l option" where
  "load_localizer m lang defaultLang =
     (case m lang of
        Some l \<Rightarrow> Some l
      | None \<Rightarrow> m defaultLang)"

text \<open>The type switch on \<^verbatim>\<open>params\<close>: the request handed to the localizer, or \<open>None\<close>
  in the default branch.\<close>

definition params_switch :: "params \<Rightarrow> LocalizeConfig option option" where
  "params_switch ps =
     (case ps of
        param_string paramValue \<Rightarrow>
          Some (Some \<lparr>MessageID = paramValue, TemplateData = None, PluralCount = None\<rparr>)
      | param_LocalizeConfig paramValue \<Rightarrow> Some paramValue
      | param_other \<Rightarrow> None)"

definition Localize ::
  "('b, 'l) env \<Rightarrow> ('b, 'l) world \<Rightarrow> echo_Context option \<Rightarrow> params \<Rightarrow> (string \<times> go_error option) res" where
  "Localize env w c ps =
     (case c of
        None \<Rightarrow> Panics NilDereference
      | Some ctx \<Rightarrow>
          (case Get ctx localsKey of
             nil_any \<Rightarrow> Ok ([], Some (Errorf ''Config is nil''))
           | other_any \<Rightarrow> Ok ([], Some (Errorf ''Config is not *Config type''))
           | Config_ptr p \<Rightarrow>
               (case (case p of None \<Rightarrow> None | Some a \<Rightarrow> heap w a) of
                  None \<Rightarrow> Panics NilDereference
                | Some appCfg \<Rightarrow>
                    (case LangHandler appCfg of
                       None \<Rightarrow> Panics NilDereference
                     | Some handler \<Rightarrow>
                         (let lang = handler c (String (DefaultLanguage appCfg)) in
                          case localizerMap appCfg of
                            None \<Rightarrow> Panics NilDereference
                          | Some m \<Rightarrow>
                              (let localizer = load_localizer m lang (String (DefaultLanguage appCfg))
                               in case params_switch ps of
                                    None \<Rightarrow> Ok ([], Some (Errorf ''Invalid params type''))
                                  | Some lc \<Rightarrow>
                                      (case localizer of
                                         None \<Rightarrow> Panics NilInterfaceConversion
                                       | Some l \<Rightarrow>
                                           (case Localizer_Localize env l lc of
                                              Panics pv \<Rightarrow> Panics pv
                                            | Ok (Inl err) \<Rightarrow> Ok ([], Some (Errorf err))
                                            | Ok (Inr message) \<Rightarrow> Ok (message, None)))))))))"

text \<open>
  \<^verbatim>\<open>
  func MustLocalize(c echo.Context, params interface{}) string {
      message, err := Localize(c, params)
      if err != nil { panic(err) }
      return message
  }
  \<close>
\<close>

definition MustLocalize ::
  "('b, 'l) env \<Rightarrow> ('b, 'l) world \<Rightarrow> echo_Context option \<Rightarrow> params \<Rightarrow> string res" where
  "MustLocalize env w c ps =
     (case Localize env w c ps of
        Panics pv \<Rightarrow> Panics pv
      | Ok (message, err) \<Rightarrow>
          (case err of
             Some e \<Rightarrow> Panics (PanicErr e)
           | None \<Rightarrow> Ok message))"


section \<open>Sample collaborators and sample inputs\<close>

text \<open>
  Concrete stand-ins, used only to run the model on examples. The sample disk holds
  two message files. The sample translation library keeps in a bundle the files parsed
  so far, refuses an empty file, binds a localizer to its language, knows the message
  \<^verbatim>\<open>welcome\<close> in English and Chinese, and, like go-i18n, rejects a plural count
  that is not a number before it looks the message up.
\<close>

definition sample_ReadFile :: "string \<Rightarrow> go_error + bytes" where
  "sample_ReadFile p =
     (if p = ''locales/en.yaml'' then Inr ''welcome: hello''
      else if p = ''locales/zh.yaml'' then Inr ''welcome: ni hao''
      else if p = ''locales/de.yaml'' then Inr []
      else Inl (''open '' @ p @ '': no such file or directory''))"

definition sample_Join :: "string list \<Rightarrow> string" where
  "sample_Join elem = (case elem of [] \<Rightarrow> [] | e # es \<Rightarrow> foldl (\<lambda>p q. p @ ''/'' @ q) e es)"

definition sample_Parse ::
  "(bytes \<times> string) list \<Rightarrow> bytes \<Rightarrow> string \<Rightarrow> go_error + (bytes \<times> string) list" where
  "sample_Parse b buf p = (if buf = [] then Inl (''empty message file '' @ p) else Inr (b @ [(buf, p)]))"

definition sample_messages :: "string \<Rightarrow> string \<Rightarrow> string option" where
  "sample_messages l i =
     (if i = ''welcome'' \<and> l = ''en'' then Some ''hello''
      else if i = ''welcome'' \<and> l = ''zh'' then Some ''ni hao''
      else None)"

definition sample_not_found :: "string \<Rightarrow> string \<Rightarrow> go_error" where
  \<open>sample_not_found i l = ''message "'' @ i @ ''" not found in language "'' @ l @ ''"''\<close>

definition sample_Localize :: "string \<Rightarrow> LocalizeConfig option \<Rightarrow> (go_error + string) res" where
  "sample_Localize l lc =
     (case lc of
        None \<Rightarrow> Panics NilDereference
      | Some cfg \<Rightarrow>
          (case PluralCount cfg of
             Some (PluralString n) \<Rightarrow>
               if n \<noteq> [] \<and> list_all (\<lambda>ch. ch \<in> set ''0123456789'') n
               then (case sample_messages l (MessageID cfg) of
                       None \<Rightarrow> Ok (Inl (sample_not_found (MessageID cfg) l))
                     | Some t \<Rightarrow> Ok (Inr t))
               else Ok (Inl (''invalid plural count '' @ n))
           | _ \<Rightarrow>
               (case sample_messages l (MessageID cfg) of
                  None \<Rightarrow> Ok (Inl (sample_not_found (MessageID cfg) l))
                | Some t \<Rightarrow> Ok (Inr t))))"

definition sample_env :: "((bytes \<times> string) list, string) env" where
  "sample_env =
     \<lparr> os_ReadFile = sample_ReadFile,
       path_Join = sample_Join,
       i18n_NewBundle = (\<lambda>_. []),
       RegisterUnmarshalFunc = (\<lambda>b _ _. b),
       ParseMessageFileBytes = sample_Parse,
       i18n_NewLocalizer = (\<lambda>_ s. s),
       Localizer_Localize = sample_Localize \<rparr>"

text \<open>A configuration as a caller writes it, with only the root path set, and the state
  in which it lives at address 1 beside the package's default configuration.\<close>

definition sample_Config :: "((bytes \<times> string) list, string) Config" where
  "sample_Config =
     \<lparr> DefaultLanguage = language_Und,
       AcceptLanguages = None,
       FormatBundleFile = [],
       Loader = None,
       RootPath = ''locales'',
       LangHandler = None,
       cfg_bundle = None,
       localizerMap = None,
       UnmarshalFunc = None \<rparr>"

definition sample_world :: "((bytes \<times> string) list, string) world" where
  "sample_world =
     \<lparr> heap = [ConfigDefault \<mapsto> ConfigDefault_value sample_env, 1 \<mapsto> sample_Config],
       trace = [] \<rparr>"

text \<open>The configuration and the state after \<^verbatim>\<open>NewMiddleware(&cfg)\<close> has run on the
  sample state (proved below to be its result).\<close>

definition sample_Config_built :: "((bytes \<times> string) list, string) Config" where
  "sample_Config_built =
     \<lparr> DefaultLanguage = language_English,
       AcceptLanguages = Some [language_Chinese, language_English],
       FormatBundleFile = ''yaml'',
       Loader = Some (LoaderFunc sample_ReadFile),
       RootPath = ''locales'',
       LangHandler = Some defaultLangHandler,
       cfg_bundle = Some [(''welcome: ni hao'', ''locales/zh.yaml''), (''welcome: hello'', ''locales/en.yaml'')],
       localizerMap = Some [''zh'' \<mapsto> ''zh'', ''en'' \<mapsto> ''en''],
       UnmarshalFunc = Some yaml_Unmarshal \<rparr>"

definition sample_world_built :: "((bytes \<times> string) list, string) world" where
  "sample_world_built =
     \<lparr> heap = [ConfigDefault \<mapsto> ConfigDefault_value sample_env, 1 \<mapsto> sample_Config_built],
       trace = [LoadMessage_call ''locales/zh.yaml'',
                ParseMessageFileBytes_call ''welcome: ni hao'' ''locales/zh.yaml'',
                LoadMessage_call ''locales/en.yaml'',
                ParseMessageFileBytes_call ''welcome: hello'' ''locales/en.yaml''] \<rparr>"

text \<open>Two complete configurations whose construction fails: the first accepts French,
  for which the sample disk has no file; the second accepts German, whose file is
  empty and is refused by the sample parser.\<close>

definition sample_Config_fr :: "((bytes \<times> string) list, string) Config" where
  "sample_Config_fr =
     \<lparr> DefaultLanguage = language_English,
       AcceptLanguages = Some [Tag ''en'', Tag ''fr'', Tag ''zh''],
       FormatBundleFile = ''yaml'',
       Loader = Some (LoaderFunc sample_ReadFile),
       RootPath = ''locales'',
       LangHandler = Some defaultLangHandler,
       cfg_bundle = None,
       localizerMap = None,
       UnmarshalFunc = Some yaml_Unmarshal \<rparr>"

definition sample_Config_de :: "((bytes \<times> string) list, string) Config" where
  "sample_Config_de = sample_Config_fr\<lparr>AcceptLanguages := Some [Tag ''de'', Tag ''en'']\<rparr>"

definition sample_world_failing :: "((bytes \<times> string) list, string) world" where
  "sample_world_failing =
     \<lparr> heap = [ConfigDefault \<mapsto> ConfigDefault_value sample_env,
               2 \<mapsto> sample_Config_fr, 3 \<mapsto> sample_Config_de],
       trace = [] \<rparr>"

text \<open>Requests: one with \<^verbatim>\<open>?lang=en\<close> and \<^verbatim>\<open>Accept-Language: zh\<close>, one with the header
  only, one with neither, and one asking for French; and the contexts the middleware
  hands to a handler for them.\<close>

definition request_query_and_header :: http_Request where
  "request_query_and_header =
     \<lparr> URL_Query = [''lang'' \<mapsto> [''en'']], Header = [''Accept-Language'' \<mapsto> [''zh'']] \<rparr>"

definition request_header_only :: http_Request where
  "request_header_only = \<lparr> URL_Query = Map.empty, Header = [''Accept-Language'' \<mapsto> [''zh'']] \<rparr>"

definition request_plain :: http_Request where
  "request_plain = \<lparr> URL_Query = Map.empty, Header = Map.empty \<rparr>"

definition request_french :: http_Request where
  "request_french = \<lparr> URL_Query = Map.empty, Header = [''Accept-Language'' \<mapsto> [''fr'']] \<rparr>"

definition context_of :: "http_Request \<Rightarrow> echo_Context" where
  "context_of r = \<lparr> Request = Some r, store = Map.empty \<rparr>"

definition served_context :: "http_Request \<Rightarrow> echo_Context" where
  "served_context r = run_middleware (MiddlewareFunc 1) (\<lambda>c. c) (context_of r)"


section \<open>Specification-side definitions\<close>

text \<open>
  The following definitions are written from the specification, to be compared with
  the functions above. Configuration defaulting, field by field: a field at its zero
  value takes the documented default, any other field keeps its value.
\<close>

definition documented_defaults :: "('b, 'l) env \<Rightarrow> ('b, 'l) Config \<Rightarrow> ('b, 'l) Config" where
  "documented_defaults env c =
     c\<lparr> DefaultLanguage :=
          (if DefaultLanguage c = language_Und then language_English else DefaultLanguage c),
        AcceptLanguages :=
          (if AcceptLanguages c = None then Some [language_Chinese, language_English]
           else AcceptLanguages c),
        FormatBundleFile := (if FormatBundleFile c = [] then ''yaml'' else FormatBundleFile c),
        Loader := (if Loader c = None then Some (LoaderFunc (os_ReadFile env)) else Loader c),
        RootPath := (if RootPath c = [] then ''./example/localize'' else RootPath c),
        LangHandler := (if LangHandler c = None then Some defaultLangHandler else LangHandler c),
        UnmarshalFunc := (if UnmarshalFunc c = None then Some yaml_Unmarshal else UnmarshalFunc c) \<rparr>"

text \<open>The layout contract \<^verbatim>\<open><RootPath>/<languageTag>.<FormatBundleFile>\<close>: the join of
  the root path with the file name made of the language tag, a dot and the format.\<close>

definition bundle_file_path :: "('b, 'l) env \<Rightarrow> ('b, 'l) Config \<Rightarrow> tag \<Rightarrow> string" where
  "bundle_file_path env c lang = path_Join env [RootPath c, String lang @ ''.'' @ FormatBundleFile c]"

text \<open>The calls one bundle file gives rise to when it loads: the loader on its path, then
  the parser on the bytes the loader returned and the same path.\<close>

definition file_calls :: "loader \<Rightarrow> string \<Rightarrow> event list" where
  "file_calls ld p =
     (case LoadMessage ld p of
        Inl _ \<Rightarrow> [LoadMessage_call p]
      | Inr buf \<Rightarrow> [LoadMessage_call p, ParseMessageFileBytes_call buf p])"

text \<open>Bundle construction as a function of the paths: load and parse each file in order
  and stop at the first failure. The result is the error of that failure (if any), the
  bundle reached and the calls made.\<close>

fun load_files ::
  "('b, 'l) env \<Rightarrow> loader \<Rightarrow> string list \<Rightarrow> 'b \<Rightarrow> go_error option \<times> 'b \<times> event list" where
  "load_files env ld [] b = (None, b, [])"
| "load_files env ld (p # ps) b =
     (case LoadMessage ld p of
        Inl err \<Rightarrow> (Some err, b, [LoadMessage_call p])
      | Inr buf \<Rightarrow>
          (case ParseMessageFileBytes env b buf p of
             Inl err \<Rightarrow> (Some err, b, [LoadMessage_call p, ParseMessageFileBytes_call buf p])
           | Inr b' \<Rightarrow>
               (case load_files env ld ps b' of
                  (r, b'', t) \<Rightarrow> (r, b'', [LoadMessage_call p, ParseMessageFileBytes_call buf p] @ t))))"

text \<open>Parsing one file into a bundle: the bundle the parser returns for the bytes the
  loader returned.\<close>

definition parse_file :: "('b, 'l) env \<Rightarrow> loader \<Rightarrow> 'b \<Rightarrow> string \<Rightarrow> 'b" where
  "parse_file env ld b p =
     (case LoadMessage ld p of
        Inl _ \<Rightarrow> b
      | Inr buf \<Rightarrow> (case ParseMessageFileBytes env b buf p of Inl _ \<Rightarrow> b | Inr b' \<Rightarrow> b'))"

text \<open>The bundle with which loading starts: a new bundle for the default language, with
  the unmarshal function registered for the format.\<close>

definition fresh_bundle :: "('b, 'l) env \<Rightarrow> ('b, 'l) Config \<Rightarrow> 'b" where
  "fresh_bundle env c =
     RegisterUnmarshalFunc env (i18n_NewBundle env (DefaultLanguage c)) (FormatBundleFile c)
       (UnmarshalFunc c)"

text \<open>The keys the localizer map is specified to have: the accepted languages and the
  default language.\<close>

definition localizer_keys :: "('b, 'l) Config \<Rightarrow> string set" where
  "localizer_keys c = String ` set (elems (AcceptLanguages c)) \<union> {String (DefaultLanguage c)}"

section \<open>Reachable states\<close>

text \<open>
  When the program starts, the package's default configuration holds its initial
  value and no configuration has a bundle or a localizer map (the two fields are
  unexported). From then on a caller may allocate a new configuration, and may call
  \<^verbatim>\<open>NewMiddleware\<close> with any arguments; the call may return or panic. Serving a
  request (the middleware's handler, \<^verbatim>\<open>Localize\<close>, \<^verbatim>\<open>MustLocalize\<close>) reads the state
  and returns none: those functions have no step of their own.
\<close>

definition initial :: "('b, 'l) env \<Rightarrow> ('b, 'l) world \<Rightarrow> bool" where
  "initial env w \<longleftrightarrow>
     heap w ConfigDefault = Some (ConfigDefault_value env) \<and>
     (\<forall>c \<in> ran (heap w). cfg_bundle c = None \<and> localizerMap c = None)"

inductive reachable :: "('b, 'l) env \<Rightarrow> ('b, 'l) world \<Rightarrow> bool" for env where
  start: "initial env w \<Longrightarrow> reachable env w"
| allocate:
    "reachable env w \<Longrightarrow> heap w a = None \<Longrightarrow> cfg_bundle c = None \<Longrightarrow> localizerMap c = None \<Longrightarrow>
     reachable env (w\<lparr>heap := (heap w)(a \<mapsto> c)\<rparr>)"
| construct:
    "reachable env w \<Longrightarrow> NewMiddleware env config w = (r, w') \<Longrightarrow> reachable env w'"

text \<open>The invariant carried through the reachable states: the default configuration
  has its default language and its accepted languages set, and every configuration
  that has a localizer map has both set and has exactly the specified keys in the map.\<close>

definition keys_ok :: "('b, 'l) world \<Rightarrow> bool" where
  "keys_ok w \<longleftrightarrow>
     (\<exists>c0. heap w ConfigDefault = Some c0 \<and> DefaultLanguage c0 \<noteq> language_Und \<and>
           AcceptLanguages c0 \<noteq> None) \<and>
     (\<forall>a c m. heap w a = Some c \<and> localizerMap c = Some m \<longrightarrow>
        DefaultLanguage c \<noteq> language_Und \<and> AcceptLanguages c \<noteq> None \<and>
        dom m = localizer_keys c)"


section \<open>Language resolution\<close>

text \<open>
  Claim C1. The default language handler returns the default language when the context
  or its request is nil, and otherwise the first that matches of: the query parameter
  \<^verbatim>\<open>lang\<close>, the header \<^verbatim>\<open>Accept-Language\<close>, the default language. A source matches
  when the value read from it is not empty.
\<close>

theorem defaultLangHandler_precedence:
  "defaultLangHandler None d = d \<and>
   (Request ctx = None \<longrightarrow> defaultLangHandler (Some ctx) d = d) \<and>
   (Request ctx = Some r \<and> QueryParam r ''lang'' \<noteq> [] \<longrightarrow>
      defaultLangHandler (Some ctx) d = QueryParam r ''lang'') \<and>
   (Request ctx = Some r \<and> QueryParam r ''lang'' = [] \<and> Header_Get r ''Accept-Language'' \<noteq> [] \<longrightarrow>
      defaultLangHandler (Some ctx) d = Header_Get r ''Accept-Language'') \<and>
   (Request ctx = Some r \<and> QueryParam r ''lang'' = [] \<and> Header_Get r ''Accept-Language'' = [] \<longrightarrow>
      defaultLangHandler (Some ctx) d = d)"
  by (simp add: defaultLangHandler_def)

theorem defaultLangHandler_precedence_witness:
  "defaultLangHandler (Some (context_of request_query_and_header)) ''fr'' = ''en'' \<and>
   defaultLangHandler (Some (context_of request_header_only)) ''fr'' = ''zh'' \<and>
   defaultLangHandler (Some (context_of request_plain)) ''fr'' = ''fr'' \<and>
   defaultLangHandler (Some \<lparr>Request = None, store = Map.empty\<rparr>) ''fr'' = ''fr''"
  using defaultLangHandler_precedence
          [where ctx = "context_of request_query_and_header" and r = request_query_and_header
             and d = "''fr''"]
        defaultLangHandler_precedence
          [where ctx = "context_of request_header_only" and r = request_header_only and d = "''fr''"]
        defaultLangHandler_precedence
          [where ctx = "context_of request_plain" and r = request_plain and d = "''fr''"]
        defaultLangHandler_precedence
          [where ctx = "\<lparr>Request = None, store = Map.empty\<rparr>" and d = "''fr''"]
  by (simp add: context_of_def request_query_and_header_def request_header_only_def
        request_plain_def QueryParam_def Header_Get_def Values_Get_def)

text \<open>
  Claim C10. A source whose value is the empty string does not match: a query
  parameter \<^verbatim>\<open>lang\<close> whose first value is empty gives the same result as a request
  without that parameter, and likewise for an empty \<^verbatim>\<open>Accept-Language\<close> header; a
  value that is not empty is returned.
\<close>

theorem defaultLangHandler_empty_is_absent:
  "defaultLangHandler (Some (ctx\<lparr>Request := Some (r\<lparr>URL_Query := (URL_Query r)(''lang'' \<mapsto> [] # vs)\<rparr>)\<rparr>)) d =
   defaultLangHandler (Some (ctx\<lparr>Request := Some (r\<lparr>URL_Query := (URL_Query r)(''lang'' := None)\<rparr>)\<rparr>)) d \<and>
   defaultLangHandler
     (Some (ctx\<lparr>Request := Some (r\<lparr>Header := (Header r)(''Accept-Language'' \<mapsto> [] # vs)\<rparr>)\<rparr>)) d =
   defaultLangHandler
     (Some (ctx\<lparr>Request := Some (r\<lparr>Header := (Header r)(''Accept-Language'' := None)\<rparr>)\<rparr>)) d \<and>
   (Request ctx = Some r \<and> URL_Query r ''lang'' = Some (v # vs) \<and> v \<noteq> [] \<longrightarrow>
      defaultLangHandler (Some ctx) d = v) \<and>
   (Request ctx = Some r \<and> QueryParam r ''lang'' = [] \<and>
    Header r ''Accept-Language'' = Some (v # vs) \<and> v \<noteq> [] \<longrightarrow>
      defaultLangHandler (Some ctx) d = v)"
  by (simp add: defaultLangHandler_def QueryParam_def Header_Get_def Values_Get_def Let_def)

theorem defaultLangHandler_empty_is_absent_witness:
  "defaultLangHandler
     (Some (context_of request_header_only
        \<lparr>Request := Some (request_header_only
           \<lparr>URL_Query := (URL_Query request_header_only)(''lang'' \<mapsto> [[], ''en''])\<rparr>)\<rparr>)) ''fr'' = ''zh'' \<and>
   defaultLangHandler
     (Some (context_of request_plain
        \<lparr>Request := Some (request_plain
           \<lparr>Header := (Header request_plain)(''Accept-Language'' \<mapsto> [[]])\<rparr>)\<rparr>)) ''fr'' = ''fr'' \<and>
   defaultLangHandler (Some (context_of request_header_only)) ''fr'' = ''zh''"
  using defaultLangHandler_empty_is_absent
          [where ctx = "context_of request_header_only" and r = request_header_only
             and vs = "[''en'']" and d = "''fr''" and v = "''zh''"]
        defaultLangHandler_empty_is_absent
          [where ctx = "context_of request_plain" and r = request_plain
             and vs = "[]" and d = "''fr''" and v = "''zh''"]
        defaultLangHandler_empty_is_absent
          [where ctx = "context_of request_header_only" and r = request_header_only
             and vs = "[]" and d = "''fr''" and v = "''zh''"]
  by (simp add: context_of_def request_header_only_def request_plain_def defaultLangHandler_def
        QueryParam_def Header_Get_def Values_Get_def)


section \<open>Auxiliary facts about defaulting, loading and construction\<close>

lemma configDefault_nil: "configDefault env [] w = (Ok ConfigDefault, w)"
  by (simp add: configDefault_def)

lemma configDefault_ptr:
  "heap w a = Some c \<Longrightarrow>
   configDefault env (Some a # rest) w = (Ok a, w\<lparr>heap := (heap w)(a \<mapsto> documented_defaults env c)\<rparr>)"
  by (simp add: configDefault_def documented_defaults_def Let_def)

lemma configDefault_nil_ptr: "configDefault env (None # rest) w = (Panics NilDereference, w)"
  by (simp add: configDefault_def)

lemma configDefault_dangling:
  "heap w a = None \<Longrightarrow> configDefault env (Some a # rest) w = (Panics NilDereference, w)"
  by (simp add: configDefault_def)

lemma configDefault_cases:
  assumes "configDefault env config w = (r, w1)"
  shows "(r = Panics NilDereference \<and> w1 = w) \<or>
   (config = [] \<and> r = Ok ConfigDefault \<and> w1 = w) \<or>
   (\<exists>a rest c. config = Some a # rest \<and> heap w a = Some c \<and> r = Ok a \<and>
      w1 = w\<lparr>heap := (heap w)(a \<mapsto> documented_defaults env c)\<rparr>)"
proof (cases config)
  case Nil
  with assms show ?thesis by (simp add: configDefault_nil)
next
  case (Cons p rest)
  show ?thesis
  proof (cases p)
    case None
    with Cons assms show ?thesis by (simp add: configDefault_nil_ptr)
  next
    case (Some a)
    show ?thesis
    proof (cases "heap w a")
      case None
      with Cons Some assms show ?thesis by (simp add: configDefault_dangling)
    next
      case (Some c)
      with Cons \<open>p = Some a\<close> assms show ?thesis by (simp add: configDefault_ptr)
    qed
  qed
qed

lemma loadMessage_frame:
  assumes "heap w a = Some c" "loadMessage env a p w = (r, w')"
  shows "\<exists>b. heap w' = (heap w)(a \<mapsto> c\<lparr>cfg_bundle := b\<rparr>)"
proof -
  have same: "heap w = (heap w)(a \<mapsto> c\<lparr>cfg_bundle := cfg_bundle c\<rparr>)"
    using assms(1) by (simp add: fun_upd_idem)
  show ?thesis
  proof (cases "Loader c")
    case None
    with assms have "w' = w" by (simp add: loadMessage_def)
    with same show ?thesis by metis
  next
    case (Some ld)
    show ?thesis
    proof (cases "LoadMessage ld p")
      case (Inl e)
      with Some assms have "heap w' = heap w" by (auto simp: loadMessage_def Let_def)
      with same show ?thesis by metis
    next
      case (Inr buf)
      show ?thesis
      proof (cases "cfg_bundle c")
        case None
        with Inr Some assms have "heap w' = heap w" by (auto simp: loadMessage_def Let_def)
        with same show ?thesis by metis
      next
        case (Some b)
        show ?thesis
        proof (cases "ParseMessageFileBytes env b buf p")
          case (Inl e)
          with Some Inr \<open>Loader c = Some ld\<close> assms have "heap w' = heap w"
            by (auto simp: loadMessage_def Let_def)
          with same show ?thesis by metis
        next
          case (Inr b')
          with Some \<open>LoadMessage ld p = Inr buf\<close> \<open>Loader c = Some ld\<close> assms
          have "heap w' = (heap w)(a \<mapsto> c\<lparr>cfg_bundle := Some b'\<rparr>)"
            by (auto simp: loadMessage_def Let_def)
          then show ?thesis by blast
        qed
      qed
    qed
  qed
qed


lemma loadMessages_range_frame:
  "heap w a = Some c \<Longrightarrow> loadMessages_range env a ls w = (r, w') \<Longrightarrow>
   \<exists>b. heap w' = (heap w)(a \<mapsto> c\<lparr>cfg_bundle := b\<rparr>)"
proof (induction ls arbitrary: w c)
  case Nil
  then have "heap w' = (heap w)(a \<mapsto> c\<lparr>cfg_bundle := cfg_bundle c\<rparr>)"
    by (simp add: fun_upd_idem)
  then show ?case by blast
next
  case (Cons lang rest)
  obtain r1 w1 where step:
    "loadMessage env a (path_Join env [RootPath c, String lang @ ''.'' @ FormatBundleFile c]) w = (r1, w1)"
    by (cases "loadMessage env a (path_Join env [RootPath c, String lang @ ''.'' @ FormatBundleFile c]) w")
  from loadMessage_frame[OF Cons.prems(1) step]
  obtain b1 where h1: "heap w1 = (heap w)(a \<mapsto> c\<lparr>cfg_bundle := b1\<rparr>)" by blast
  show ?case
  proof (cases r1)
    case (Panics pv)
    with Cons.prems step have "w' = w1" by (simp add: Let_def)
    with h1 show ?thesis by blast
  next
    case (Ok u)
    with Cons.prems step have rest: "loadMessages_range env a rest w1 = (r, w')"
      by (simp add: Let_def)
    from h1 have "heap w1 a = Some (c\<lparr>cfg_bundle := b1\<rparr>)" by simp
    from Cons.IH[OF this rest] obtain b where
      "heap w' = (heap w1)(a \<mapsto> c\<lparr>cfg_bundle := b1\<rparr>\<lparr>cfg_bundle := b\<rparr>)" by blast
    with h1 have "heap w' = (heap w)(a \<mapsto> c\<lparr>cfg_bundle := b\<rparr>)" by simp
    then show ?thesis by blast
  qed
qed

lemma bundle_file_path_bundle [simp]:
  "bundle_file_path env (c\<lparr>cfg_bundle := x\<rparr>) = bundle_file_path env c"
  by (rule ext) (simp add: bundle_file_path_def)

lemma heap_same_bundle:
  "heap w a = Some c \<Longrightarrow> cfg_bundle c = Some b \<Longrightarrow> (heap w)(a \<mapsto> c\<lparr>cfg_bundle := Some b\<rparr>) = heap w"
  by (auto simp: fun_upd_idem)

lemma loadMessage_load_fails:
  "heap w a = Some c \<Longrightarrow> Loader c = Some ld \<Longrightarrow> LoadMessage ld p = Inl err \<Longrightarrow>
   loadMessage env a p w = (Panics (PanicErr err), w\<lparr>trace := trace w @ [LoadMessage_call p]\<rparr>)"
  by (simp add: loadMessage_def Let_def)

lemma loadMessage_parse_fails:
  "heap w a = Some c \<Longrightarrow> Loader c = Some ld \<Longrightarrow> LoadMessage ld p = Inr buf \<Longrightarrow>
   cfg_bundle c = Some b \<Longrightarrow> ParseMessageFileBytes env b buf p = Inl err \<Longrightarrow>
   loadMessage env a p w =
     (Panics (PanicErr err),
      w\<lparr>trace := trace w @ [LoadMessage_call p, ParseMessageFileBytes_call buf p]\<rparr>)"
  by (simp add: loadMessage_def Let_def)

lemma loadMessage_ok:
  "heap w a = Some c \<Longrightarrow> Loader c = Some ld \<Longrightarrow> LoadMessage ld p = Inr buf \<Longrightarrow>
   cfg_bundle c = Some b \<Longrightarrow> ParseMessageFileBytes env b buf p = Inr b' \<Longrightarrow>
   loadMessage env a p w =
     (Ok (),
      w\<lparr>trace := trace w @ [LoadMessage_call p, ParseMessageFileBytes_call buf p],
        heap := (heap w)(a \<mapsto> c\<lparr>cfg_bundle := Some b'\<rparr>)\<rparr>)"
  by (simp add: loadMessage_def Let_def)

lemma loadMessages_range_load_files:
  "heap w a = Some c \<Longrightarrow> Loader c = Some ld \<Longrightarrow> cfg_bundle c = Some b \<Longrightarrow>
   load_files env ld (map (bundle_file_path env c) ls) b = (e, b', t) \<Longrightarrow>
   loadMessages_range env a ls w =
     ((case e of None \<Rightarrow> Ok () | Some err \<Rightarrow> Panics (PanicErr err)),
      w\<lparr>trace := trace w @ t, heap := (heap w)(a \<mapsto> c\<lparr>cfg_bundle := Some b'\<rparr>)\<rparr>)"
proof (induction ls arbitrary: w c b t e b')
  case Nil
  then show ?case by (simp add: heap_same_bundle)
next
  case (Cons lang rest)
  let ?p = "bundle_file_path env c lang"
  have p: "path_Join env [RootPath c, String lang @ CHR ''.'' # FormatBundleFile c] = ?p"
    by (simp add: bundle_file_path_def)
  show ?case
  proof (cases "LoadMessage ld ?p")
    case (Inl err)
    with Cons.prems have "e = Some err" "b' = b" "t = [LoadMessage_call ?p]" by simp_all
    with Cons.prems Inl show ?thesis
      by (simp add: p loadMessage_load_fails heap_same_bundle)
  next
    case (Inr buf)
    show ?thesis
    proof (cases "ParseMessageFileBytes env b buf ?p")
      case (Inl err)
      with Inr Cons.prems have "e = Some err" "b' = b"
        "t = [LoadMessage_call ?p, ParseMessageFileBytes_call buf ?p]" by simp_all
      with Cons.prems Inl Inr show ?thesis
        by (simp add: p loadMessage_parse_fails heap_same_bundle)
    next
      case (Inr b1)
      obtain e2 b2 t2 where rec:
        "load_files env ld (map (bundle_file_path env c) rest) b1 = (e2, b2, t2)"
        by (cases "load_files env ld (map (bundle_file_path env c) rest) b1")
      with Inr \<open>LoadMessage ld ?p = Inr buf\<close> Cons.prems have res:
        "e = e2" "b' = b2" "t = [LoadMessage_call ?p, ParseMessageFileBytes_call buf ?p] @ t2"
        by simp_all
      let ?w1 = "w\<lparr>trace := trace w @ [LoadMessage_call ?p, ParseMessageFileBytes_call buf ?p],
                    heap := (heap w)(a \<mapsto> c\<lparr>cfg_bundle := Some b1\<rparr>)\<rparr>"
      have step: "loadMessage env a ?p w = (Ok (), ?w1)"
        using Cons.prems Inr \<open>LoadMessage ld ?p = Inr buf\<close> by (simp add: loadMessage_ok)
      have rec': "load_files env ld (map (bundle_file_path env (c\<lparr>cfg_bundle := Some b1\<rparr>)) rest) b1 = (e2, b2, t2)"
        using rec by simp
      have "loadMessages_range env a rest ?w1 =
              ((case e2 of None \<Rightarrow> Ok () | Some err \<Rightarrow> Panics (PanicErr err)),
               ?w1\<lparr>trace := trace ?w1 @ t2,
                    heap := (heap ?w1)(a \<mapsto> c\<lparr>cfg_bundle := Some b1\<rparr>\<lparr>cfg_bundle := Some b2\<rparr>)\<rparr>)"
        by (rule Cons.IH[OF _ _ _ rec']) (simp_all add: Cons.prems)
      then have tail: "loadMessages_range env a rest ?w1 =
              ((case e of None \<Rightarrow> Ok () | Some err \<Rightarrow> Panics (PanicErr err)),
               w\<lparr>trace := trace w @ t, heap := (heap w)(a \<mapsto> c\<lparr>cfg_bundle := Some b'\<rparr>)\<rparr>)"
        using res by simp
      have head: "loadMessages_range env a (lang # rest) w = loadMessages_range env a rest ?w1"
        using Cons.prems(1) step by (simp add: p del: fun_upd_apply)
      show ?thesis by (rule trans[OF head tail])
    qed
  qed
qed


lemma dom_store_localizers:
  "dom (store_localizers env b ls m) = dom m \<union> String ` set ls"
  by (induction ls arbitrary: m) (auto simp: Let_def)

lemma store_localizers_values:
  "(\<forall>k l. m k = Some l \<longrightarrow> l = i18n_NewLocalizer env b k) \<Longrightarrow>
   store_localizers env b ls m k = Some l \<Longrightarrow> l = i18n_NewLocalizer env b k"
proof (induction ls arbitrary: m)
  case Nil
  then show ?case by simp
next
  case (Cons lang rest)
  let ?m = "m(String lang \<mapsto> i18n_NewLocalizer env b (String lang))"
  have "\<forall>k l. ?m k = Some l \<longrightarrow> l = i18n_NewLocalizer env b k"
    using Cons.prems(1) by auto
  moreover have "store_localizers env b rest ?m k = Some l"
    using Cons.prems(2) by (simp add: Let_def)
  ultimately show ?case by (rule Cons.IH)
qed

lemma initLocalizerMap_eq:
  "heap w a = Some c \<Longrightarrow>
   initLocalizerMap env a w = (Ok (), w\<lparr>heap := (heap w)(a \<mapsto> c\<lparr>localizerMap := Some (new_localizerMap env c)\<rparr>)\<rparr>)"
  by (simp add: initLocalizerMap_def)

lemma dom_new_localizerMap: "dom (new_localizerMap env c) = localizer_keys c"
proof -
  let ?m0 = "store_localizers env (cfg_bundle c) (elems (AcceptLanguages c)) Map.empty"
  have d0: "dom ?m0 = String ` set (elems (AcceptLanguages c))"
    by (simp add: dom_store_localizers)
  show ?thesis
  proof (cases "?m0 (String (DefaultLanguage c))")
    case None
    then have "new_localizerMap env c = ?m0(String (DefaultLanguage c) \<mapsto>
        i18n_NewLocalizer env (cfg_bundle c) (String (DefaultLanguage c)))"
      by (simp add: new_localizerMap_def Let_def)
    then show ?thesis using d0 by (auto simp: localizer_keys_def)
  next
    case (Some l)
    then have "new_localizerMap env c = ?m0" by (simp add: new_localizerMap_def Let_def)
    moreover from Some have "String (DefaultLanguage c) \<in> dom ?m0" by blast
    ultimately show ?thesis using d0 by (auto simp: localizer_keys_def)
  qed
qed

lemma new_localizerMap_values:
  "new_localizerMap env c k = Some l \<Longrightarrow> l = i18n_NewLocalizer env (cfg_bundle c) k"
  by (auto simp: new_localizerMap_def Let_def split: if_splits dest: store_localizers_values[rotated])


lemma configDefault_trace:
  "configDefault env config w = (r, w1) \<Longrightarrow> trace w1 = trace w"
  by (drule configDefault_cases) auto

lemma file_calls_Inl: "LoadMessage ld p = Inl err \<Longrightarrow> file_calls ld p = [LoadMessage_call p]"
  by (simp add: file_calls_def)

lemma file_calls_Inr:
  "LoadMessage ld p = Inr buf \<Longrightarrow> file_calls ld p = [LoadMessage_call p, ParseMessageFileBytes_call buf p]"
  by (simp add: file_calls_def)

lemma load_files_prefix:
  "load_files env ld ps b = (e, b', t) \<Longrightarrow> prefix t (concat (map (file_calls ld) ps))"
proof (induction ps arbitrary: b e b' t)
  case Nil
  then show ?case by simp
next
  case (Cons p ps)
  show ?case
  proof (cases "LoadMessage ld p")
    case (Inl err)
    with Cons.prems show ?thesis by (auto simp: file_calls_Inl file_calls_Inr)
  next
    case (Inr buf)
    show ?thesis
    proof (cases "ParseMessageFileBytes env b buf p")
      case (Inl err)
      with Inr Cons.prems show ?thesis by (auto simp: file_calls_Inl file_calls_Inr)
    next
      case (Inr b1)
      obtain e2 b2 t2 where rec: "load_files env ld ps b1 = (e2, b2, t2)"
        by (cases "load_files env ld ps b1")
      from Cons.IH[OF rec] have "prefix t2 (concat (map (file_calls ld) ps))" .
      with rec Inr \<open>LoadMessage ld p = Inr buf\<close> Cons.prems show ?thesis
        by (auto simp: file_calls_Inl file_calls_Inr)
    qed
  qed
qed

lemma load_files_success:
  "load_files env ld ps b = (None, b', t) \<Longrightarrow>
   t = concat (map (file_calls ld) ps) \<and> (\<forall>p \<in> set ps. \<exists>buf. LoadMessage ld p = Inr buf)"
proof (induction ps arbitrary: b b' t)
  case Nil
  then show ?case by simp
next
  case (Cons p ps)
  show ?case
  proof (cases "LoadMessage ld p")
    case (Inl err)
    with Cons.prems show ?thesis by simp
  next
    case (Inr buf)
    show ?thesis
    proof (cases "ParseMessageFileBytes env b buf p")
      case (Inl err)
      with Inr Cons.prems show ?thesis by simp
    next
      case (Inr b1)
      obtain e2 b2 t2 where rec: "load_files env ld ps b1 = (e2, b2, t2)"
        by (cases "load_files env ld ps b1")
      with Inr \<open>LoadMessage ld p = Inr buf\<close> Cons.prems have "e2 = None" by simp
      from Cons.IH[OF rec[unfolded this]]
      have "t2 = concat (map (file_calls ld) ps) \<and> (\<forall>p \<in> set ps. \<exists>buf. LoadMessage ld p = Inr buf)" .
      with rec Inr \<open>LoadMessage ld p = Inr buf\<close> Cons.prems show ?thesis
        by (auto simp: file_calls_Inl file_calls_Inr)
    qed
  qed
qed

lemma load_files_failure:
  "load_files env ld ps b = (Some err, b', t) \<Longrightarrow>
   t \<noteq> [] \<and>
   (\<exists>p \<in> set ps.
      (last t = LoadMessage_call p \<and> LoadMessage ld p = Inl err) \<or>
      (\<exists>buf. last t = ParseMessageFileBytes_call buf p \<and> LoadMessage ld p = Inr buf \<and>
             ParseMessageFileBytes env b' buf p = Inl err))"
proof (induction ps arbitrary: b b' t)
  case Nil
  then show ?case by simp
next
  case (Cons p ps)
  show ?case
  proof (cases "LoadMessage ld p")
    case (Inl e1)
    with Cons.prems show ?thesis by auto
  next
    case (Inr buf)
    show ?thesis
    proof (cases "ParseMessageFileBytes env b buf p")
      case (Inl e1)
      with Inr Cons.prems show ?thesis by auto
    next
      case (Inr b1)
      obtain e2 b2 t2 where rec: "load_files env ld ps b1 = (e2, b2, t2)"
        by (cases "load_files env ld ps b1")
      with Inr \<open>LoadMessage ld p = Inr buf\<close> Cons.prems
      have eq: "e2 = Some err" "b2 = b'" "t = [LoadMessage_call p, ParseMessageFileBytes_call buf p] @ t2"
        by simp_all
      from Cons.IH[OF rec[unfolded eq(1,2)]] have ih: "t2 \<noteq> []"
        "\<exists>p \<in> set ps.
          (last t2 = LoadMessage_call p \<and> LoadMessage ld p = Inl err) \<or>
          (\<exists>buf. last t2 = ParseMessageFileBytes_call buf p \<and> LoadMessage ld p = Inr buf \<and>
             ParseMessageFileBytes env b' buf p = Inl err)" by blast+
      from ih(1) eq(3) have "t \<noteq> []" "last t = last t2" by simp_all
      with ih(2) show ?thesis by auto
    qed
  qed
qed

lemma load_files_loader_fails:
  "p \<in> set ps \<Longrightarrow> LoadMessage ld p = Inl err \<Longrightarrow> \<exists>e' b' t. load_files env ld ps b = (Some e', b', t)"
proof (induction ps arbitrary: b)
  case Nil
  then show ?case by simp
next
  case (Cons q ps)
  show ?case
  proof (cases "LoadMessage ld q")
    case (Inl e1)
    then show ?thesis by simp
  next
    case (Inr buf)
    with Cons.prems have mem: "p \<in> set ps" by auto
    show ?thesis
    proof (cases "ParseMessageFileBytes env b buf q")
      case (Inl e1)
      with Inr show ?thesis by simp
    next
      case (Inr b1)
      from Cons.IH[OF mem Cons.prems(2)] obtain e' b' t where "load_files env ld ps b1 = (Some e', b', t)"
        by blast
      with Inr \<open>LoadMessage ld q = Inr buf\<close> show ?thesis by simp
    qed
  qed
qed

lemma load_files_parser_fails:
  "p \<in> set ps \<Longrightarrow> LoadMessage ld p = Inr buf \<Longrightarrow>
   (\<And>b0. \<exists>err. ParseMessageFileBytes env b0 buf p = Inl err) \<Longrightarrow>
   \<exists>e' b' t. load_files env ld ps b = (Some e', b', t)"
proof (induction ps arbitrary: b)
  case Nil
  then show ?case by simp
next
  case (Cons q ps)
  show ?case
  proof (cases "LoadMessage ld q")
    case (Inl e1)
    then show ?thesis by simp
  next
    case (Inr buf1)
    show ?thesis
    proof (cases "ParseMessageFileBytes env b buf1 q")
      case (Inl e1)
      with Inr show ?thesis by simp
    next
      case (Inr b1)
      have "p \<noteq> q"
      proof
        assume "p = q"
        with Cons.prems(2) \<open>LoadMessage ld q = Inr buf1\<close> have "buf1 = buf" by simp
        with Cons.prems(3)[of b] \<open>p = q\<close> Inr show False by auto
      qed
      with Cons.prems(1) have mem: "p \<in> set ps" by auto
      from Cons.IH[OF mem Cons.prems(2,3)] obtain e' b' t
        where "load_files env ld ps b1 = (Some e', b', t)" by blast
      with Inr \<open>LoadMessage ld q = Inr buf1\<close> show ?thesis by simp
    qed
  qed
qed


lemma loadMessages_eq:
  "heap w a = Some c \<Longrightarrow> loadMessages env a w = loadMessages_range env a (elems (AcceptLanguages c)) w"
  by (simp add: loadMessages_def)

lemma NewMiddleware_unfold:
  assumes cd: "configDefault env config w = (Ok a, w1)" and h: "heap w1 a = Some c"
  shows "NewMiddleware env config w =
     (case loadMessages_range env a (elems (AcceptLanguages c))
             (w1\<lparr>heap := (heap w1)(a \<mapsto> c\<lparr>cfg_bundle := Some (fresh_bundle env c)\<rparr>)\<rparr>) of
        (Panics pv, w3) \<Rightarrow> (Panics pv, w3)
      | (Ok u, w3) \<Rightarrow>
          (case initLocalizerMap env a w3 of
             (Panics pv, w4) \<Rightarrow> (Panics pv, w4)
           | (Ok u, w4) \<Rightarrow> (Ok (MiddlewareFunc a), w4)))"
proof -
  let ?w2 = "w1\<lparr>heap := (heap w1)(a \<mapsto> c\<lparr>cfg_bundle := Some (fresh_bundle env c)\<rparr>)\<rparr>"
  have "heap ?w2 a = Some (c\<lparr>cfg_bundle := Some (fresh_bundle env c)\<rparr>)" by simp
  then have "loadMessages env a ?w2 = loadMessages_range env a (elems (AcceptLanguages c)) ?w2"
    by (simp add: loadMessages_def del: fun_upd_apply)
  then show ?thesis
    using cd h by (simp add: NewMiddleware_def fresh_bundle_def Let_def del: fun_upd_apply)
qed

lemma NewMiddleware_frame:
  assumes cd: "configDefault env config w = (Ok a, w1)" and h: "heap w1 a = Some c"
    and nm: "NewMiddleware env config w = (r, w')"
  shows "(\<exists>pv b. r = Panics pv \<and> heap w' = (heap w1)(a \<mapsto> c\<lparr>cfg_bundle := b\<rparr>)) \<or>
         (\<exists>b. r = Ok (MiddlewareFunc a) \<and>
              heap w' = (heap w1)(a \<mapsto> c\<lparr>cfg_bundle := b,
                 localizerMap := Some (new_localizerMap env (c\<lparr>cfg_bundle := b\<rparr>))\<rparr>))"
proof -
  let ?c2 = "c\<lparr>cfg_bundle := Some (fresh_bundle env c)\<rparr>"
  let ?w2 = "w1\<lparr>heap := (heap w1)(a \<mapsto> ?c2)\<rparr>"
  obtain r3 w3 where lm: "loadMessages_range env a (elems (AcceptLanguages c)) ?w2 = (r3, w3)"
    by (cases "loadMessages_range env a (elems (AcceptLanguages c)) ?w2")
  have "heap ?w2 a = Some ?c2" by simp
  from loadMessages_range_frame[OF this lm] obtain b where
    "heap w3 = (heap ?w2)(a \<mapsto> ?c2\<lparr>cfg_bundle := b\<rparr>)" by blast
  then have h3: "heap w3 = (heap w1)(a \<mapsto> c\<lparr>cfg_bundle := b\<rparr>)" by simp
  show ?thesis
  proof (cases r3)
    case (Panics pv)
    with nm lm have "r = Panics pv" "w' = w3"
      by (simp_all add: NewMiddleware_unfold[OF cd h])
    with h3 show ?thesis by blast
  next
    case (Ok u)
    from h3 have "heap w3 a = Some (c\<lparr>cfg_bundle := b\<rparr>)" by simp
    note il = initLocalizerMap_eq[OF this, of env]
    with nm lm Ok have "r = Ok (MiddlewareFunc a)"
      "w' = w3\<lparr>heap := (heap w3)(a \<mapsto> c\<lparr>cfg_bundle := b\<rparr>
                \<lparr>localizerMap := Some (new_localizerMap env (c\<lparr>cfg_bundle := b\<rparr>))\<rparr>)\<rparr>"
      by (simp_all add: NewMiddleware_unfold[OF cd h])
    with h3 have "r = Ok (MiddlewareFunc a) \<and>
        heap w' = (heap w1)(a \<mapsto> c\<lparr>cfg_bundle := b,
                 localizerMap := Some (new_localizerMap env (c\<lparr>cfg_bundle := b\<rparr>))\<rparr>)" by simp
    then show ?thesis by blast
  qed
qed

lemma NewMiddleware_load_files:
  assumes cd: "configDefault env config w = (Ok a, w1)" and h: "heap w1 a = Some c"
    and ld: "Loader c = Some ld"
    and lf: "load_files env ld (map (bundle_file_path env c) (elems (AcceptLanguages c)))
               (fresh_bundle env c) = (e, b', t)"
  shows "NewMiddleware env config w =
     (case e of
        Some err \<Rightarrow>
          (Panics (PanicErr err),
           w1\<lparr>trace := trace w1 @ t, heap := (heap w1)(a \<mapsto> c\<lparr>cfg_bundle := Some b'\<rparr>)\<rparr>)
      | None \<Rightarrow>
          (Ok (MiddlewareFunc a),
           w1\<lparr>trace := trace w1 @ t,
              heap := (heap w1)(a \<mapsto> c\<lparr>cfg_bundle := Some b',
                 localizerMap := Some (new_localizerMap env (c\<lparr>cfg_bundle := Some b'\<rparr>))\<rparr>)\<rparr>))"
proof -
  let ?c2 = "c\<lparr>cfg_bundle := Some (fresh_bundle env c)\<rparr>"
  let ?w2 = "w1\<lparr>heap := (heap w1)(a \<mapsto> ?c2)\<rparr>"
  let ?w3 = "?w2\<lparr>trace := trace ?w2 @ t, heap := (heap ?w2)(a \<mapsto> ?c2\<lparr>cfg_bundle := Some b'\<rparr>)\<rparr>"
  have lf': "load_files env ld (map (bundle_file_path env ?c2) (elems (AcceptLanguages c)))
               (fresh_bundle env c) = (e, b', t)"
    using lf by simp
  have lm: "loadMessages_range env a (elems (AcceptLanguages c)) ?w2 =
      ((case e of None \<Rightarrow> Ok () | Some err \<Rightarrow> Panics (PanicErr err)), ?w3)"
    by (rule loadMessages_range_load_files[OF _ _ _ lf']) (simp_all add: ld)
  have w3: "?w3 = w1\<lparr>trace := trace w1 @ t, heap := (heap w1)(a \<mapsto> c\<lparr>cfg_bundle := Some b'\<rparr>)\<rparr>"
    by simp
  show ?thesis
  proof (cases e)
    case (Some err)
    with lm w3 show ?thesis by (simp add: NewMiddleware_unfold[OF cd h])
  next
    case None
    have "heap ?w3 a = Some (c\<lparr>cfg_bundle := Some b'\<rparr>)" by simp
    note il = initLocalizerMap_eq[OF this, of env]
    with None lm show ?thesis
      by (simp add: NewMiddleware_unfold[OF cd h])
  qed
qed


section \<open>The samples, evaluated\<close>

lemmas sample_defs = sample_env_def sample_world_def sample_Config_def sample_ReadFile_def sample_Join_def
  sample_Parse_def ConfigDefault_def ConfigDefault_value_def language_Und_def language_English_def language_Chinese_def
  sample_world_built_def sample_Config_built_def

lemma sample_construction:
  "NewMiddleware sample_env [Some 1] sample_world = (Ok (MiddlewareFunc 1), sample_world_built)"
  by (simp add: NewMiddleware_def configDefault_def loadMessages_def loadMessage_def initLocalizerMap_def
     new_localizerMap_def elems_def sample_defs Let_def fun_upd_twist)

lemma served_Get: "Get (served_context r) localsKey = Config_ptr (Some 1)"
  by (simp add: served_context_def run_middleware_def Set_def Get_def)

lemma served_Request: "Request (served_context r) = Some r"
  by (simp add: served_context_def run_middleware_def Set_def context_of_def)

lemma sample_Localize_welcome_zh:
  "Localize sample_env sample_world_built (Some (served_context request_header_only)) (param_string ''welcome'')
     = Ok (''ni hao'', None)"
  by (simp add: Localize_def served_Get served_Request sample_world_built_def sample_Config_built_def
        defaultLangHandler_def request_header_only_def QueryParam_def Header_Get_def Values_Get_def
        load_localizer_def params_switch_def sample_env_def sample_Localize_def sample_messages_def
        language_English_def Let_def)

lemma sample_Localize_missing:
  \<open>Localize sample_env sample_world_built (Some (served_context request_header_only)) (param_string ''welcome?'')
     = Ok ([], Some ''i18n.Localize error: message "welcome?" not found in language "zh"'')\<close>
  by (simp add: Localize_def served_Get served_Request sample_world_built_def sample_Config_built_def
        defaultLangHandler_def request_header_only_def QueryParam_def Header_Get_def Values_Get_def
        load_localizer_def params_switch_def sample_env_def sample_Localize_def sample_messages_def
        language_English_def Let_def Errorf_def sample_not_found_def)

lemma Localize_nil_context: "Localize env w None ps = Panics NilDereference"
  by (simp add: Localize_def)

section \<open>Configuration defaulting\<close>

text \<open>
  Claim C6. Defaulting replaces every field of the supplied configuration that is at
  its zero value, and only those, by the documented default (English;
  Chinese and English; \<^verbatim>\<open>yaml\<close>; the loader reading the disk; the example root path;
  the default language handler; the YAML unmarshal function) and leaves every other
  field as the caller set it, the bundle and the localizer map included. Called with no
  configuration, it returns the pointer to the one shared default configuration, and
  nothing is copied or written; that configuration is initialised with the same
  defaults.
\<close>

theorem configDefault_defaults:
  "configDefault env [] w = (Ok ConfigDefault, w) \<and>
   (heap w a = Some c \<longrightarrow>
      configDefault env (Some a # rest) w =
        (Ok a, w\<lparr>heap := (heap w)(a \<mapsto> documented_defaults env c)\<rparr>)) \<and>
   cfg_bundle (documented_defaults env c) = cfg_bundle c \<and>
   localizerMap (documented_defaults env c) = localizerMap c \<and>
   documented_defaults env (ConfigDefault_value env) = ConfigDefault_value env"
  by (simp add: configDefault_nil configDefault_ptr documented_defaults_def ConfigDefault_value_def
        language_English_def language_Und_def)

theorem configDefault_defaults_witness:
  "configDefault sample_env [] sample_world = (Ok ConfigDefault, sample_world) \<and>
   fst (configDefault sample_env [Some 1] sample_world) = Ok 1 \<and>
   heap (snd (configDefault sample_env [Some 1] sample_world)) 1 =
     Some (sample_Config_built\<lparr>cfg_bundle := None, localizerMap := None\<rparr>) \<and>
   heap (snd (configDefault sample_env [Some 1] sample_world)) ConfigDefault =
     Some (ConfigDefault_value sample_env)"
  using configDefault_defaults
          [where env = sample_env and w = sample_world and a = 1 and c = sample_Config and rest = "[]"]
  by (simp add: sample_defs documented_defaults_def)

section \<open>MustLocalize\<close>

text \<open>
  Claim C8. \<^verbatim>\<open>MustLocalize\<close> differs from \<^verbatim>\<open>Localize\<close> only in how an error is
  delivered: where \<^verbatim>\<open>Localize\<close> returns a text and a nil error it returns that text,
  and where \<^verbatim>\<open>Localize\<close> returns an error it panics with that error. A panic of
  \<^verbatim>\<open>Localize\<close> itself is passed on.
\<close>

theorem MustLocalize_delivery:
  "(Localize env w c ps = Ok (msg, None) \<longrightarrow> MustLocalize env w c ps = Ok msg) \<and>
   (Localize env w c ps = Ok (msg, Some e) \<longrightarrow> MustLocalize env w c ps = Panics (PanicErr e)) \<and>
   (Localize env w c ps = Panics pv \<longrightarrow> MustLocalize env w c ps = Panics pv)"
  by (simp add: MustLocalize_def)

theorem MustLocalize_delivery_witness:
  \<open>MustLocalize sample_env sample_world_built (Some (served_context request_header_only))
      (param_string ''welcome'') = Ok ''ni hao'' \<and>
   MustLocalize sample_env sample_world_built (Some (served_context request_header_only))
      (param_string ''welcome?'') =
     Panics (PanicErr ''i18n.Localize error: message "welcome?" not found in language "zh"'') \<and>
   MustLocalize sample_env sample_world_built None (param_string ''welcome'') = Panics NilDereference\<close>
  using MustLocalize_delivery
          [where env = sample_env and w = sample_world_built
             and c = "Some (served_context request_header_only)" and ps = "param_string ''welcome''"
             and msg = "''ni hao''"]
        MustLocalize_delivery
          [where env = sample_env and w = sample_world_built
             and c = "Some (served_context request_header_only)" and ps = "param_string ''welcome?''"
             and msg = "[]"
             and e = \<open>''i18n.Localize error: message "welcome?" not found in language "zh"''\<close>]
        MustLocalize_delivery
          [where env = sample_env and w = sample_world_built and c = None
             and ps = "param_string ''welcome''" and pv = NilDereference]
  by (simp add: sample_Localize_welcome_zh sample_Localize_missing Localize_nil_context)


section \<open>Localize\<close>

lemma NewMiddleware_configDefault_panics:
  "configDefault env config w = (Panics pv, w1) \<Longrightarrow> NewMiddleware env config w = (Panics pv, w1)"
  by (simp add: NewMiddleware_def)

lemma NewMiddleware_dangling:
  "configDefault env config w = (Ok a, w1) \<Longrightarrow> heap w1 a = None \<Longrightarrow>
   NewMiddleware env config w = (Panics NilDereference, w1)"
  by (simp add: NewMiddleware_def)

lemma NewMiddleware_Ok:
  assumes "NewMiddleware env config w = (Ok mw, w')"
  shows "\<exists>a w1 c b. configDefault env config w = (Ok a, w1) \<and> heap w1 a = Some c \<and>
           mw = MiddlewareFunc a \<and>
           heap w' = (heap w1)(a \<mapsto> c\<lparr>cfg_bundle := b,
              localizerMap := Some (new_localizerMap env (c\<lparr>cfg_bundle := b\<rparr>))\<rparr>)"
proof -
  obtain r1 w1 where cd: "configDefault env config w = (r1, w1)"
    by (cases "configDefault env config w")
  show ?thesis
  proof (cases r1)
    case (Panics pv)
    with cd assms show ?thesis by (simp add: NewMiddleware_configDefault_panics)
  next
    case (Ok a)
    show ?thesis
    proof (cases "heap w1 a")
      case None
      with cd Ok assms show ?thesis by (simp add: NewMiddleware_dangling)
    next
      case (Some c)
      from NewMiddleware_frame[OF cd[unfolded Ok] Some assms]
      obtain b where "Ok mw = Ok (MiddlewareFunc a)"
        "heap w' = (heap w1)(a \<mapsto> c\<lparr>cfg_bundle := b,
              localizerMap := Some (new_localizerMap env (c\<lparr>cfg_bundle := b\<rparr>))\<rparr>)"
        by blast
      with cd Ok Some show ?thesis by blast
    qed
  qed
qed

lemma Localize_with_config:
  assumes "Get ctx localsKey = Config_ptr (Some a)" "heap w a = Some cfg"
    "LangHandler cfg = Some h" "localizerMap cfg = Some m"
  shows "Localize env w (Some ctx) ps =
     (case params_switch ps of
        None \<Rightarrow> Ok ([], Some (Errorf ''Invalid params type''))
      | Some lc \<Rightarrow>
          (case load_localizer m (h (Some ctx) (String (DefaultLanguage cfg)))
                  (String (DefaultLanguage cfg)) of
             None \<Rightarrow> Panics NilInterfaceConversion
           | Some l \<Rightarrow>
               (case Localizer_Localize env l lc of
                  Panics pv \<Rightarrow> Panics pv
                | Ok (Inl err) \<Rightarrow> Ok ([], Some (Errorf err))
                | Ok (Inr message) \<Rightarrow> Ok (message, None))))"
  using assms by (simp add: Localize_def Let_def)

lemma Localize_no_usable_config:
  assumes "Get ctx localsKey = Config_ptr p"
    "p = None \<or> (\<exists>a. p = Some a \<and> (heap w a = None \<or>
        (\<exists>cfg. heap w a = Some cfg \<and> (LangHandler cfg = None \<or> localizerMap cfg = None))))"
  shows "Localize env w (Some ctx) ps = Panics NilDereference"
  using assms by (auto simp: Localize_def Let_def split: option.splits)

lemma params_switch_None: "params_switch ps = None \<longleftrightarrow> ps = param_other"
  by (cases ps) (simp_all add: params_switch_def)

lemma sample_Localize_plain_welcome:
  "Localize sample_env sample_world_built (Some (served_context request_plain)) (param_string ''welcome'')
     = Ok (''hello'', None)"
  by (simp add: Localize_def served_Get served_Request sample_world_built_def sample_Config_built_def
        defaultLangHandler_def request_plain_def QueryParam_def Header_Get_def Values_Get_def
        load_localizer_def params_switch_def sample_env_def sample_Localize_def sample_messages_def
        language_English_def Let_def)

lemma sample_Localize_plural:
  "Localize sample_env sample_world_built (Some (served_context request_plain))
     (param_LocalizeConfig
        (Some \<lparr>MessageID = ''welcome'', TemplateData = None, PluralCount = Some (PluralString ''many'')\<rparr>))
     = Ok ([], Some ''i18n.Localize error: invalid plural count many'')"
  by (simp add: Localize_def served_Get served_Request sample_world_built_def sample_Config_built_def
        defaultLangHandler_def request_plain_def QueryParam_def Header_Get_def Values_Get_def
        load_localizer_def params_switch_def sample_env_def sample_Localize_def sample_messages_def
        language_English_def Let_def Errorf_def)

lemma sample_Localize_french:
  \<open>Localize sample_env sample_world_built (Some (served_context request_french)) (param_string ''welcome?'')
     = Ok ([], Some ''i18n.Localize error: message "welcome?" not found in language "en"'')\<close>
  by (simp add: Localize_def served_Get served_Request sample_world_built_def sample_Config_built_def
        defaultLangHandler_def request_french_def QueryParam_def Header_Get_def Values_Get_def
        load_localizer_def params_switch_def sample_env_def sample_Localize_def sample_messages_def
        language_English_def Let_def Errorf_def sample_not_found_def)

lemma sample_Localize_french_welcome:
  "Localize sample_env sample_world_built (Some (served_context request_french)) (param_string ''welcome'')
     = Ok (''hello'', None)"
  by (simp add: Localize_def served_Get served_Request sample_world_built_def sample_Config_built_def
        defaultLangHandler_def request_french_def QueryParam_def Header_Get_def Values_Get_def
        load_localizer_def params_switch_def sample_env_def sample_Localize_def sample_messages_def
        language_English_def Let_def)

lemma sample_Localize_no_config:
  "Localize sample_env sample_world_built (Some (context_of request_plain)) (param_string ''welcome'')
     = Ok ([], Some ''i18n.Localize error: Config is nil'')"
  by (simp add: Localize_def context_of_def Get_def Errorf_def)

lemma sample_Localize_other_params:
  "Localize sample_env sample_world_built (Some (served_context request_plain)) param_other
     = Ok ([], Some ''i18n.Localize error: Invalid params type'')"
  by (simp add: Localize_def served_Get served_Request sample_world_built_def sample_Config_built_def
        load_localizer_def params_switch_def Let_def Errorf_def)

text \<open>
  Claim C2, as amended. For a context that is not nil, \<^verbatim>\<open>Localize\<close> returns an error,
  with the empty text, in exactly these cases: nothing is stored under the key
  \<^verbatim>\<open>echoi18n\<close>; the stored value is not a \<^verbatim>\<open>*Config\<close>; the stored configuration has
  a language handler and a localizer map, as it has once constructed, and
  \<^verbatim>\<open>params\<close> is neither a string nor a \<^verbatim>\<open>*i18n.LocalizeConfig\<close>; or the localizer that is used (the one of the resolved
  language, else the one of the default language) returns an error, of whatever kind. In
  the last case the error returned is the localizer's error text behind the prefix
  \<^verbatim>\<open>i18n.Localize error: \<close>, so it names the message and the language as far as the
  localizer's error does. \<^verbatim>\<open>Localize\<close> returns a text with a nil error exactly when
  that localizer returns the text. In every remaining case the call panics.
\<close>

theorem Localize_error_cases:
  "(Localize env w (Some ctx) ps = Ok (msg, Some e)) =
     (msg = [] \<and>
      (Get ctx localsKey = nil_any \<and> e = Errorf ''Config is nil'' \<or>
       Get ctx localsKey = other_any \<and> e = Errorf ''Config is not *Config type'' \<or>
       (\<exists>a cfg h m.
          Get ctx localsKey = Config_ptr (Some a) \<and> heap w a = Some cfg \<and>
          LangHandler cfg = Some h \<and> localizerMap cfg = Some m \<and>
          (ps = param_other \<and> e = Errorf ''Invalid params type'' \<or>
           (\<exists>lc l err.
              params_switch ps = Some lc \<and>
              load_localizer m (h (Some ctx) (String (DefaultLanguage cfg)))
                (String (DefaultLanguage cfg)) = Some l \<and>
              Localizer_Localize env l lc = Ok (Inl err) \<and> e = Errorf err))))) \<and>
   (Localize env w (Some ctx) ps = Ok (msg, None)) =
     (\<exists>a cfg h m lc l.
        Get ctx localsKey = Config_ptr (Some a) \<and> heap w a = Some cfg \<and>
        LangHandler cfg = Some h \<and> localizerMap cfg = Some m \<and>
        params_switch ps = Some lc \<and>
        load_localizer m (h (Some ctx) (String (DefaultLanguage cfg)))
          (String (DefaultLanguage cfg)) = Some l \<and>
        Localizer_Localize env l lc = Ok (Inr msg))"
proof (cases "Get ctx localsKey")
  case nil_any
  then have "Localize env w (Some ctx) ps = Ok ([], Some (Errorf ''Config is nil''))"
    by (simp add: Localize_def)
  with nil_any show ?thesis by auto
next
  case other_any
  then have "Localize env w (Some ctx) ps = Ok ([], Some (Errorf ''Config is not *Config type''))"
    by (simp add: Localize_def)
  with other_any show ?thesis by auto
next
  case (Config_ptr p)
  show ?thesis
  proof (cases "\<exists>a cfg h m. p = Some a \<and> heap w a = Some cfg \<and> LangHandler cfg = Some h \<and>
                  localizerMap cfg = Some m")
    case False
    then have "p = None \<or> (\<exists>a. p = Some a \<and> (heap w a = None \<or>
        (\<exists>cfg. heap w a = Some cfg \<and> (LangHandler cfg = None \<or> localizerMap cfg = None))))"
    proof (cases p)
      case None
      then show ?thesis by simp
    next
      case (Some a)
      show ?thesis
      proof (cases "heap w a")
        case None
        with Some show ?thesis by simp
      next
        case (Some cfg)
        with False \<open>p = Some a\<close> have "LangHandler cfg = None \<or> localizerMap cfg = None"
          by (cases "LangHandler cfg"; cases "localizerMap cfg") auto
        with Some \<open>p = Some a\<close> show ?thesis by simp
      qed
    qed
    from Localize_no_usable_config[OF Config_ptr this]
    have "Localize env w (Some ctx) ps = Panics NilDereference" .
    with Config_ptr False show ?thesis by auto
  next
    case True
    then obtain a cfg h m where u: "p = Some a" "heap w a = Some cfg" "LangHandler cfg = Some h"
      "localizerMap cfg = Some m" by blast
    let ?l = "load_localizer m (h (Some ctx) (String (DefaultLanguage cfg)))
                (String (DefaultLanguage cfg))"
    have g: "Get ctx localsKey = Config_ptr (Some a)" using Config_ptr u(1) by simp
    note L = Localize_with_config[OF g u(2,3,4), of env ps]
    show ?thesis
    proof (cases "params_switch ps")
      case None
      with L have "Localize env w (Some ctx) ps = Ok ([], Some (Errorf ''Invalid params type''))"
        by simp
      moreover from None have "ps = param_other" by (simp add: params_switch_None)
      moreover have "params_switch param_other = None" by (simp add: params_switch_def)
      ultimately show ?thesis using g u by auto
    next
      case (Some lc)
      then have np: "ps \<noteq> param_other" using params_switch_None[of ps] by auto
      show ?thesis
      proof (cases ?l)
        case None
        with L Some have "Localize env w (Some ctx) ps = Panics NilInterfaceConversion" by simp
        with None Some g u np show ?thesis by auto
      next
        case (Some l)
        show ?thesis
        proof (cases "Localizer_Localize env l lc")
          case (Panics pv)
          with L Some \<open>params_switch ps = Some lc\<close>
          have "Localize env w (Some ctx) ps = Panics pv" by simp
          with Panics Some \<open>params_switch ps = Some lc\<close> g u np show ?thesis by auto
        next
          case (Ok res)
          show ?thesis
          proof (cases res)
            case (Inl err)
            with Ok L Some \<open>params_switch ps = Some lc\<close>
            have "Localize env w (Some ctx) ps = Ok ([], Some (Errorf err))" by simp
            with Inl Ok Some \<open>params_switch ps = Some lc\<close> g u np show ?thesis by auto
          next
            case (Inr message)
            with Ok L Some \<open>params_switch ps = Some lc\<close>
            have "Localize env w (Some ctx) ps = Ok (message, None)" by simp
            with Inr Ok Some \<open>params_switch ps = Some lc\<close> g u np show ?thesis by auto
          qed
        qed
      qed
    qed
  qed
qed

theorem Localize_error_cases_witness:
  \<open>Localize sample_env sample_world_built (Some (served_context request_header_only))
     (param_string ''welcome?'') =
     Ok ([], Some ''i18n.Localize error: message "welcome?" not found in language "zh"'') \<and>
   Localize sample_env sample_world_built (Some (served_context request_header_only))
     (param_string ''welcome'') = Ok (''ni hao'', None) \<and>
   Localize sample_env sample_world_built (Some (context_of request_plain))
     (param_string ''welcome'') = Ok ([], Some ''i18n.Localize error: Config is nil'') \<and>
   Localize sample_env sample_world_built (Some (served_context request_plain)) param_other =
     Ok ([], Some ''i18n.Localize error: Invalid params type'')\<close>
  using Localize_error_cases
          [where env = sample_env and w = sample_world_built
             and ctx = "served_context request_header_only" and ps = "param_string ''welcome?''"
             and msg = "[]"
             and e = \<open>''i18n.Localize error: message "welcome?" not found in language "zh"''\<close>]
        Localize_error_cases
          [where env = sample_env and w = sample_world_built
             and ctx = "served_context request_header_only" and ps = "param_string ''welcome''"
             and msg = "''ni hao''"]
        Localize_error_cases
          [where env = sample_env and w = sample_world_built
             and ctx = "context_of request_plain" and ps = "param_string ''welcome''"
             and msg = "[]" and e = "''i18n.Localize error: Config is nil''"]
        Localize_error_cases
          [where env = sample_env and w = sample_world_built
             and ctx = "served_context request_plain" and ps = "param_other"
             and msg = "[]" and e = "''i18n.Localize error: Invalid params type''"]
  by (simp only: sample_Localize_missing sample_Localize_welcome_zh sample_Localize_no_config
        sample_Localize_other_params simp_thms)

text \<open>
  Claim C2 as stated fails. On the state built from the sample configuration, a request
  reaches a handler with the configuration attached and resolves to English; the
  message \<^verbatim>\<open>welcome\<close> exists in English, as the call with the bare identifier shows;
  the call with a \<^verbatim>\<open>*i18n.LocalizeConfig\<close> for the same message and a plural count that
  is not a number returns an error all the same, because \<^verbatim>\<open>Localize\<close> passes on every
  error of the localizer.
\<close>

theorem Localize_plural_count_counterexample:
  "Get (served_context request_plain) localsKey = Config_ptr (Some 1) \<and>
   Localize sample_env sample_world_built (Some (served_context request_plain))
     (param_string ''welcome'') = Ok (''hello'', None) \<and>
   Localize sample_env sample_world_built (Some (served_context request_plain))
     (param_LocalizeConfig
        (Some \<lparr>MessageID = ''welcome'', TemplateData = None, PluralCount = Some (PluralString ''many'')\<rparr>))
     = Ok ([], Some ''i18n.Localize error: invalid plural count many'')"
  by (simp add: served_Get sample_Localize_plain_welcome sample_Localize_plural)

text \<open>
  Claim C4. After a construction that returned, \<^verbatim>\<open>Localize\<close> on a context that
  carries the constructed configuration always finds a localizer: the map has an entry
  for the default language, and whatever string the language handler returns, the
  localizer used is the one stored under that string or, when there is none, the one
  stored under the default language. The call then fails only for a \<^verbatim>\<open>params\<close> of
  the wrong type or with the error (or panic) of that localizer.
\<close>

theorem Localize_default_fallback:
  assumes nm: "NewMiddleware env config w = (Ok mw, w')"
    and cfg: "heap w' (captured_cfg mw) = Some cfg"
    and h: "LangHandler cfg = Some h"
    and g: "Get ctx localsKey = Config_ptr (Some (captured_cfg mw))"
  shows "\<exists>m l. localizerMap cfg = Some m \<and>
           m (String (DefaultLanguage cfg)) \<noteq> None \<and>
           load_localizer m (h (Some ctx) (String (DefaultLanguage cfg)))
             (String (DefaultLanguage cfg)) = Some l \<and>
           (m (h (Some ctx) (String (DefaultLanguage cfg))) = None \<longrightarrow>
              m (String (DefaultLanguage cfg)) = Some l) \<and>
           Localize env w' (Some ctx) ps =
             (case params_switch ps of
                None \<Rightarrow> Ok ([], Some (Errorf ''Invalid params type''))
              | Some lc \<Rightarrow>
                  (case Localizer_Localize env l lc of
                     Panics pv \<Rightarrow> Panics pv
                   | Ok (Inl err) \<Rightarrow> Ok ([], Some (Errorf err))
                   | Ok (Inr message) \<Rightarrow> Ok (message, None)))"
proof -
  from NewMiddleware_Ok[OF nm] obtain a w1 c b where
    "configDefault env config w = (Ok a, w1)" and
    mw: "mw = MiddlewareFunc a" and
    hp: "heap w' = (heap w1)(a \<mapsto> c\<lparr>cfg_bundle := b,
              localizerMap := Some (new_localizerMap env (c\<lparr>cfg_bundle := b\<rparr>))\<rparr>)"
    by blast
  let ?m = "new_localizerMap env (c\<lparr>cfg_bundle := b\<rparr>)"
  let ?d = "String (DefaultLanguage cfg)"
  from cfg mw hp have c: "cfg = c\<lparr>cfg_bundle := b, localizerMap := Some ?m\<rparr>" by simp
  then have lm: "localizerMap cfg = Some ?m" and d: "DefaultLanguage cfg = DefaultLanguage c"
    by simp_all
  have "?d \<in> dom ?m" by (simp add: dom_new_localizerMap localizer_keys_def d)
  then obtain ld where ld: "?m ?d = Some ld" by blast
  obtain l where l: "load_localizer ?m (h (Some ctx) ?d) ?d = Some l"
    using ld by (cases "?m (h (Some ctx) ?d)") (simp_all add: load_localizer_def)
  have fb: "?m (h (Some ctx) ?d) = None \<longrightarrow> ?m ?d = Some l"
    using l by (auto simp: load_localizer_def)
  have "Localize env w' (Some ctx) ps =
             (case params_switch ps of
                None \<Rightarrow> Ok ([], Some (Errorf ''Invalid params type''))
              | Some lc \<Rightarrow>
                  (case Localizer_Localize env l lc of
                     Panics pv \<Rightarrow> Panics pv
                   | Ok (Inl err) \<Rightarrow> Ok ([], Some (Errorf err))
                   | Ok (Inr message) \<Rightarrow> Ok (message, None)))"
    using Localize_with_config[OF g cfg h lm, of env ps] l
    by (cases "params_switch ps") simp_all
  moreover have "?m ?d \<noteq> None" using ld by simp
  ultimately show ?thesis using lm l fb by (intro exI[of _ ?m] exI[of _ l] conjI)
qed

theorem Localize_default_fallback_witness:
  "defaultLangHandler (Some (served_context request_french)) ''en'' = ''fr'' \<and>
   localizerMap sample_Config_built = Some [''zh'' \<mapsto> ''zh'', ''en'' \<mapsto> ''en''] \<and>
   Localize sample_env sample_world_built (Some (served_context request_french))
     (param_string ''welcome'') = Ok (''hello'', None)"
proof -
  let ?ctx = "served_context request_french"
  have a: "heap sample_world_built (captured_cfg (MiddlewareFunc 1)) = Some sample_Config_built"
    by (simp add: sample_world_built_def)
  have b: "LangHandler sample_Config_built = Some defaultLangHandler"
    by (simp add: sample_Config_built_def)
  have g: "Get ?ctx localsKey = Config_ptr (Some (captured_cfg (MiddlewareFunc 1)))"
    by (simp add: served_Get)
  have d: "String (DefaultLanguage sample_Config_built) = ''en''"
    by (simp add: sample_Config_built_def language_English_def)
  have fr: "defaultLangHandler (Some ?ctx) ''en'' = ''fr''"
    by (simp add: defaultLangHandler_def served_Request request_french_def QueryParam_def
          Header_Get_def Values_Get_def)
  have m: "localizerMap sample_Config_built = Some [''zh'' \<mapsto> ''zh'', ''en'' \<mapsto> ''en'']"
    by (simp add: sample_Config_built_def)
  from Localize_default_fallback[OF sample_construction a b g, of "param_string ''welcome''"]
  obtain m' l where
    "localizerMap sample_Config_built = Some m'"
    "load_localizer m' (defaultLangHandler (Some ?ctx) ''en'') ''en'' = Some l"
    "Localize sample_env sample_world_built (Some ?ctx) (param_string ''welcome'') =
       (case params_switch (param_string ''welcome'') of
          None \<Rightarrow> Ok ([], Some (Errorf ''Invalid params type''))
        | Some lc \<Rightarrow>
            (case Localizer_Localize sample_env l lc of
               Panics pv \<Rightarrow> Panics pv
             | Ok (Inl err) \<Rightarrow> Ok ([], Some (Errorf err))
             | Ok (Inr message) \<Rightarrow> Ok (message, None)))"
    unfolding d by blast
  with m fr have "l = ''en''" by (simp add: load_localizer_def)
  with \<open>Localize sample_env sample_world_built (Some ?ctx) (param_string ''welcome'') = _\<close>
  have "Localize sample_env sample_world_built (Some ?ctx) (param_string ''welcome'') = Ok (''hello'', None)"
    by (simp add: params_switch_def sample_env_def sample_Localize_def sample_messages_def)
  with fr m show ?thesis by simp
qed


section \<open>Loading the bundle files\<close>

lemma load_files_bundle:
  "load_files env ld ps b = (None, b', t) \<Longrightarrow> b' = foldl (parse_file env ld) b ps"
proof (induction ps arbitrary: b b' t)
  case Nil
  then show ?case by simp
next
  case (Cons p ps)
  show ?case
  proof (cases "LoadMessage ld p")
    case (Inl err)
    with Cons.prems show ?thesis by simp
  next
    case (Inr buf)
    show ?thesis
    proof (cases "ParseMessageFileBytes env b buf p")
      case (Inl err)
      with Inr Cons.prems show ?thesis by simp
    next
      case (Inr b1)
      obtain e2 b2 t2 where rec: "load_files env ld ps b1 = (e2, b2, t2)"
        by (cases "load_files env ld ps b1")
      with Inr \<open>LoadMessage ld p = Inr buf\<close> Cons.prems have "e2 = None" "b2 = b'" by simp_all
      from Cons.IH[OF rec[unfolded this]] have "b' = foldl (parse_file env ld) b1 ps" .
      moreover have "parse_file env ld b p = b1"
        using Inr \<open>LoadMessage ld p = Inr buf\<close> by (simp add: parse_file_def)
      ultimately show ?thesis by simp
    qed
  qed
qed

lemma sample_defaulting:
  "configDefault sample_env [Some 1] sample_world =
     (Ok 1, sample_world\<lparr>heap := (heap sample_world)(1 \<mapsto> documented_defaults sample_env sample_Config)\<rparr>)"
  by (rule configDefault_ptr) (simp add: sample_world_def)

lemma sample_defaulted:
  "documented_defaults sample_env sample_Config =
     sample_Config_built\<lparr>cfg_bundle := None, localizerMap := None\<rparr>"
  by (simp add: documented_defaults_def sample_defs)

lemma sample_complete_fr: "documented_defaults sample_env sample_Config_fr = sample_Config_fr"
  by (simp add: documented_defaults_def sample_Config_fr_def sample_defs)

lemma sample_complete_de: "documented_defaults sample_env sample_Config_de = sample_Config_de"
  by (simp add: documented_defaults_def sample_Config_de_def sample_Config_fr_def sample_defs)

lemma sample_defaulting_fr:
  "configDefault sample_env [Some 2] sample_world_failing = (Ok 2, sample_world_failing)"
  using configDefault_ptr[of sample_world_failing 2 sample_Config_fr sample_env "[]"]
  by (simp add: sample_world_failing_def sample_complete_fr fun_upd_idem)

lemma sample_defaulting_de:
  "configDefault sample_env [Some 3] sample_world_failing = (Ok 3, sample_world_failing)"
  using configDefault_ptr[of sample_world_failing 3 sample_Config_de sample_env "[]"]
  by (simp add: sample_world_failing_def sample_complete_de fun_upd_idem)

lemma sample_paths:
  "bundle_file_path sample_env (documented_defaults sample_env sample_Config) language_Chinese = ''locales/zh.yaml''"
  "bundle_file_path sample_env (documented_defaults sample_env sample_Config) language_English = ''locales/en.yaml''"
  by (simp_all add: bundle_file_path_def documented_defaults_def sample_defs)

lemma sample_fails_fr:
  "fst (NewMiddleware sample_env [Some 2] sample_world_failing) =
     Panics (PanicErr ''open locales/fr.yaml: no such file or directory'')"
  "trace (snd (NewMiddleware sample_env [Some 2] sample_world_failing)) =
     [LoadMessage_call ''locales/en.yaml'',
      ParseMessageFileBytes_call ''welcome: hello'' ''locales/en.yaml'',
      LoadMessage_call ''locales/fr.yaml'']"
  by (simp_all add: NewMiddleware_def configDefault_def loadMessages_def loadMessage_def
        elems_def sample_world_failing_def sample_Config_fr_def sample_defs Let_def)

lemma sample_fails_de:
  "fst (NewMiddleware sample_env [Some 3] sample_world_failing) =
     Panics (PanicErr ''empty message file locales/de.yaml'')"
  "trace (snd (NewMiddleware sample_env [Some 3] sample_world_failing)) =
     [LoadMessage_call ''locales/de.yaml'', ParseMessageFileBytes_call [] ''locales/de.yaml'']"
  by (simp_all add: NewMiddleware_def configDefault_def loadMessages_def loadMessage_def
        elems_def sample_world_failing_def sample_Config_de_def sample_Config_fr_def sample_defs Let_def)

text \<open>
  Claim C5. During construction, once defaulting has returned the configuration, the
  calls made are, for each accepted language in the order of the list, the loader on
  the path that joins the root path with the language tag, a dot and the format, and
  then the parser on the bytes the loader returned and that same path. A construction
  that returns has made all these calls and no other, and the configuration's bundle is
  the fresh bundle with every file parsed into it in that order; a construction that
  panics has made an initial part of them.
\<close>

theorem NewMiddleware_bundle_files:
  assumes cd: "configDefault env config w = (Ok a, w1)" and h: "heap w1 a = Some c"
    and ld: "Loader c = Some ld"
    and nm: "NewMiddleware env config w = (r, w')"
  shows "\<exists>t. trace w' = trace w @ t \<and>
           prefix t (concat (map (file_calls ld)
                       (map (bundle_file_path env c) (elems (AcceptLanguages c))))) \<and>
           ((\<exists>mw. r = Ok mw) \<longrightarrow>
              t = concat (map (file_calls ld)
                    (map (bundle_file_path env c) (elems (AcceptLanguages c)))) \<and>
              (\<forall>lang \<in> set (elems (AcceptLanguages c)).
                 \<exists>buf. LoadMessage ld (bundle_file_path env c lang) = Inr buf \<and>
                       file_calls ld (bundle_file_path env c lang) =
                         [LoadMessage_call (bundle_file_path env c lang),
                          ParseMessageFileBytes_call buf (bundle_file_path env c lang)]) \<and>
              (\<exists>c'. heap w' a = Some c' \<and>
                 cfg_bundle c' =
                   Some (foldl (parse_file env ld) (fresh_bundle env c)
                          (map (bundle_file_path env c) (elems (AcceptLanguages c))))))"
proof -
  let ?ps = "map (bundle_file_path env c) (elems (AcceptLanguages c))"
  obtain e b' t where lf: "load_files env ld ?ps (fresh_bundle env c) = (e, b', t)"
    by (cases "load_files env ld ?ps (fresh_bundle env c)")
  note NM = NewMiddleware_load_files[OF cd h ld lf]
  have tr1: "trace w1 = trace w" using cd by (rule configDefault_trace)
  have pre: "prefix t (concat (map (file_calls ld) ?ps))" using lf by (rule load_files_prefix)
  show ?thesis
  proof (cases e)
    case (Some err)
    with NM nm have "r = Panics (PanicErr err)" "trace w' = trace w1 @ t" by auto
    with tr1 pre show ?thesis by auto
  next
    case None
    with NM nm have r: "r = Ok (MiddlewareFunc a)" and tr: "trace w' = trace w1 @ t"
      and hp: "heap w' a = Some (c\<lparr>cfg_bundle := Some b',
                 localizerMap := Some (new_localizerMap env (c\<lparr>cfg_bundle := Some b'\<rparr>))\<rparr>)"
      by auto
    from load_files_success[OF lf[unfolded None]]
    have full: "t = concat (map (file_calls ld) ?ps)"
      and all: "\<forall>p \<in> set ?ps. \<exists>buf. LoadMessage ld p = Inr buf" by blast+
    from load_files_bundle[OF lf[unfolded None]]
    have b': "b' = foldl (parse_file env ld) (fresh_bundle env c) ?ps" .
    have each: "\<forall>lang \<in> set (elems (AcceptLanguages c)).
                 \<exists>buf. LoadMessage ld (bundle_file_path env c lang) = Inr buf \<and>
                       file_calls ld (bundle_file_path env c lang) =
                         [LoadMessage_call (bundle_file_path env c lang),
                          ParseMessageFileBytes_call buf (bundle_file_path env c lang)]"
    proof
      fix lang assume "lang \<in> set (elems (AcceptLanguages c))"
      with all obtain buf where "LoadMessage ld (bundle_file_path env c lang) = Inr buf" by auto
      then show "\<exists>buf. LoadMessage ld (bundle_file_path env c lang) = Inr buf \<and>
                       file_calls ld (bundle_file_path env c lang) =
                         [LoadMessage_call (bundle_file_path env c lang),
                          ParseMessageFileBytes_call buf (bundle_file_path env c lang)]"
        by (auto simp: file_calls_Inr)
    qed
    have bun: "\<exists>c'. heap w' a = Some c' \<and> cfg_bundle c' = Some (foldl (parse_file env ld) (fresh_bundle env c) ?ps)"
      using hp b' by simp
    from tr tr1 have "trace w' = trace w @ t" by simp
    with full pre each bun show ?thesis by (intro exI[of _ t] conjI impI)
  qed
qed

theorem NewMiddleware_bundle_files_witness:
  "map (bundle_file_path sample_env (documented_defaults sample_env sample_Config))
     [language_Chinese, language_English] = [''locales/zh.yaml'', ''locales/en.yaml''] \<and>
   trace sample_world_built =
     [LoadMessage_call ''locales/zh.yaml'',
      ParseMessageFileBytes_call ''welcome: ni hao'' ''locales/zh.yaml'',
      LoadMessage_call ''locales/en.yaml'',
      ParseMessageFileBytes_call ''welcome: hello'' ''locales/en.yaml''] \<and>
   (\<exists>c'. heap sample_world_built 1 = Some c' \<and>
      cfg_bundle c' =
        Some [(''welcome: ni hao'', ''locales/zh.yaml''), (''welcome: hello'', ''locales/en.yaml'')])"
proof -
  let ?c = "documented_defaults sample_env sample_Config"
  let ?ld = "LoaderFunc sample_ReadFile"
  have h: "heap (sample_world\<lparr>heap := (heap sample_world)(1 \<mapsto> ?c)\<rparr>) 1 = Some ?c" by simp
  have ld: "Loader ?c = Some ?ld" by (simp add: sample_defaulted sample_Config_built_def)
  have al: "elems (AcceptLanguages ?c) = [language_Chinese, language_English]"
    by (simp add: sample_defaulted sample_Config_built_def elems_def)
  have ps: "map (bundle_file_path sample_env ?c) [language_Chinese, language_English] =
              [''locales/zh.yaml'', ''locales/en.yaml'']"
    by (simp add: sample_paths)
  have calls: "concat (map (file_calls ?ld) [''locales/zh.yaml'', ''locales/en.yaml'']) =
     [LoadMessage_call ''locales/zh.yaml'',
      ParseMessageFileBytes_call ''welcome: ni hao'' ''locales/zh.yaml'',
      LoadMessage_call ''locales/en.yaml'',
      ParseMessageFileBytes_call ''welcome: hello'' ''locales/en.yaml'']"
    by (simp add: file_calls_def sample_ReadFile_def)
  have parsed: "foldl (parse_file sample_env ?ld) (fresh_bundle sample_env ?c)
                  [''locales/zh.yaml'', ''locales/en.yaml''] =
     [(''welcome: ni hao'', ''locales/zh.yaml''), (''welcome: hello'', ''locales/en.yaml'')]"
    by (simp add: parse_file_def fresh_bundle_def sample_env_def sample_ReadFile_def sample_Parse_def)
  from NewMiddleware_bundle_files[OF sample_defaulting h ld sample_construction]
  obtain t where "trace sample_world_built = trace sample_world @ t"
    "t = concat (map (file_calls ?ld) (map (bundle_file_path sample_env ?c) (elems (AcceptLanguages ?c))))"
    "\<exists>c'. heap sample_world_built 1 = Some c' \<and>
        cfg_bundle c' = Some (foldl (parse_file sample_env ?ld) (fresh_bundle sample_env ?c)
           (map (bundle_file_path sample_env ?c) (elems (AcceptLanguages ?c))))"
    by blast
  then show ?thesis unfolding al ps calls parsed by (simp add: sample_world_def)
qed

text \<open>
  Claim C7. If the loader fails for the file of some accepted language, or that file
  cannot be parsed, the construction panics with an error and returns no middleware
  (the result of \<^verbatim>\<open>NewMiddleware\<close> is a middleware or a panic: there is no error
  value). The panic is immediate: its value is the error of the failing call, that call
  is the last one made, and the localizer map is left as it was. Nothing in the package
  recovers the panic.
\<close>

theorem NewMiddleware_aborts:
  assumes cd: "configDefault env config w = (Ok a, w1)" and h: "heap w1 a = Some c"
    and ld: "Loader c = Some ld"
    and nm: "NewMiddleware env config w = (r, w')"
  shows "((\<exists>lang \<in> set (elems (AcceptLanguages c)).
            \<exists>err. LoadMessage ld (bundle_file_path env c lang) = Inl err) \<longrightarrow>
          (\<exists>err. r = Panics (PanicErr err))) \<and>
         ((\<exists>lang \<in> set (elems (AcceptLanguages c)).
            \<exists>buf. LoadMessage ld (bundle_file_path env c lang) = Inr buf \<and>
                  (\<forall>b. \<exists>err. ParseMessageFileBytes env b buf (bundle_file_path env c lang) = Inl err)) \<longrightarrow>
          (\<exists>err. r = Panics (PanicErr err))) \<and>
         (\<forall>pv. r = Panics pv \<longrightarrow>
            (\<exists>err lang c'.
               pv = PanicErr err \<and> lang \<in> set (elems (AcceptLanguages c)) \<and> trace w' \<noteq> [] \<and>
               heap w' a = Some c' \<and> localizerMap c' = localizerMap c \<and>
               (last (trace w') = LoadMessage_call (bundle_file_path env c lang) \<and>
                LoadMessage ld (bundle_file_path env c lang) = Inl err \<or>
                (\<exists>buf b.
                   last (trace w') = ParseMessageFileBytes_call buf (bundle_file_path env c lang) \<and>
                   LoadMessage ld (bundle_file_path env c lang) = Inr buf \<and>
                   cfg_bundle c' = Some b \<and>
                   ParseMessageFileBytes env b buf (bundle_file_path env c lang) = Inl err))))"
proof -
  let ?ps = "map (bundle_file_path env c) (elems (AcceptLanguages c))"
  obtain e b' t where lf: "load_files env ld ?ps (fresh_bundle env c) = (e, b', t)"
    by (cases "load_files env ld ?ps (fresh_bundle env c)")
  note NM = NewMiddleware_load_files[OF cd h ld lf]
  have A: "\<exists>err. r = Panics (PanicErr err)"
    if "\<exists>lang \<in> set (elems (AcceptLanguages c)).
          \<exists>err. LoadMessage ld (bundle_file_path env c lang) = Inl err"
  proof -
    from that obtain lang err where "lang \<in> set (elems (AcceptLanguages c))"
      "LoadMessage ld (bundle_file_path env c lang) = Inl err" by blast
    then have "bundle_file_path env c lang \<in> set ?ps" by simp
    from load_files_loader_fails[OF this \<open>LoadMessage ld (bundle_file_path env c lang) = Inl err\<close>,
        of env "fresh_bundle env c"] lf
    obtain e' where "e = Some e'" by auto
    with NM nm show ?thesis by auto
  qed
  have B: "\<exists>err. r = Panics (PanicErr err)"
    if "\<exists>lang \<in> set (elems (AcceptLanguages c)).
            \<exists>buf. LoadMessage ld (bundle_file_path env c lang) = Inr buf \<and>
                  (\<forall>b. \<exists>err. ParseMessageFileBytes env b buf (bundle_file_path env c lang) = Inl err)"
  proof -
    from that obtain lang buf where m: "lang \<in> set (elems (AcceptLanguages c))"
      and l: "LoadMessage ld (bundle_file_path env c lang) = Inr buf"
      and p: "\<And>b. \<exists>err. ParseMessageFileBytes env b buf (bundle_file_path env c lang) = Inl err"
      by blast
    from m have "bundle_file_path env c lang \<in> set ?ps" by simp
    from load_files_parser_fails[OF this l p, of "fresh_bundle env c"] lf
    obtain e' where "e = Some e'" by auto
    with NM nm show ?thesis by auto
  qed
  have C: "\<exists>err lang c'.
               pv = PanicErr err \<and> lang \<in> set (elems (AcceptLanguages c)) \<and> trace w' \<noteq> [] \<and>
               heap w' a = Some c' \<and> localizerMap c' = localizerMap c \<and>
               (last (trace w') = LoadMessage_call (bundle_file_path env c lang) \<and>
                LoadMessage ld (bundle_file_path env c lang) = Inl err \<or>
                (\<exists>buf b.
                   last (trace w') = ParseMessageFileBytes_call buf (bundle_file_path env c lang) \<and>
                   LoadMessage ld (bundle_file_path env c lang) = Inr buf \<and>
                   cfg_bundle c' = Some b \<and>
                   ParseMessageFileBytes env b buf (bundle_file_path env c lang) = Inl err))"
    if "r = Panics pv" for pv
  proof (cases e)
    case None
    with NM nm that show ?thesis by auto
  next
    case (Some err)
    with NM nm that have pv: "pv = PanicErr err" and tr: "trace w' = trace w1 @ t"
      and hp: "heap w' a = Some (c\<lparr>cfg_bundle := Some b'\<rparr>)" by auto
    from load_files_failure[OF lf[unfolded Some]] obtain p where
      t: "t \<noteq> []" and p: "p \<in> set ?ps" and
      f: "(last t = LoadMessage_call p \<and> LoadMessage ld p = Inl err) \<or>
          (\<exists>buf. last t = ParseMessageFileBytes_call buf p \<and> LoadMessage ld p = Inr buf \<and>
             ParseMessageFileBytes env b' buf p = Inl err)" by blast
    from p obtain lang where lang: "lang \<in> set (elems (AcceptLanguages c))"
      "p = bundle_file_path env c lang" by auto
    from t tr have tw: "trace w' \<noteq> []" "last (trace w') = last t" by simp_all
    let ?c' = "c\<lparr>cfg_bundle := Some b'\<rparr>"
    have "pv = PanicErr err \<and> lang \<in> set (elems (AcceptLanguages c)) \<and> trace w' \<noteq> [] \<and>
               heap w' a = Some ?c' \<and> localizerMap ?c' = localizerMap c \<and>
               (last (trace w') = LoadMessage_call (bundle_file_path env c lang) \<and>
                LoadMessage ld (bundle_file_path env c lang) = Inl err \<or>
                (\<exists>buf b.
                   last (trace w') = ParseMessageFileBytes_call buf (bundle_file_path env c lang) \<and>
                   LoadMessage ld (bundle_file_path env c lang) = Inr buf \<and>
                   cfg_bundle ?c' = Some b \<and>
                   ParseMessageFileBytes env b buf (bundle_file_path env c lang) = Inl err))"
      using pv lang tw hp f by auto
    then show ?thesis by blast
  qed
  from A B C show ?thesis by blast
qed

theorem NewMiddleware_aborts_witness:
  "LoadMessage (LoaderFunc sample_ReadFile) (bundle_file_path sample_env sample_Config_fr (Tag ''fr'')) =
     Inl ''open locales/fr.yaml: no such file or directory'' \<and>
   fst (NewMiddleware sample_env [Some 2] sample_world_failing) =
     Panics (PanicErr ''open locales/fr.yaml: no such file or directory'') \<and>
   last (trace (snd (NewMiddleware sample_env [Some 2] sample_world_failing))) =
     LoadMessage_call ''locales/fr.yaml'' \<and>
   fst (NewMiddleware sample_env [Some 3] sample_world_failing) =
     Panics (PanicErr ''empty message file locales/de.yaml'') \<and>
   last (trace (snd (NewMiddleware sample_env [Some 3] sample_world_failing))) =
     ParseMessageFileBytes_call [] ''locales/de.yaml''"
proof -
  have h2: "heap sample_world_failing 2 = Some sample_Config_fr"
    and h3: "heap sample_world_failing 3 = Some sample_Config_de"
    by (simp_all add: sample_world_failing_def)
  have l2: "Loader sample_Config_fr = Some (LoaderFunc sample_ReadFile)"
    and l3: "Loader sample_Config_de = Some (LoaderFunc sample_ReadFile)"
    by (simp_all add: sample_Config_de_def sample_Config_fr_def)
  have fr: "LoadMessage (LoaderFunc sample_ReadFile) (bundle_file_path sample_env sample_Config_fr (Tag ''fr'')) =
     Inl ''open locales/fr.yaml: no such file or directory''"
    by (simp add: bundle_file_path_def sample_Config_fr_def sample_env_def sample_Join_def
          sample_ReadFile_def)
  have mem: "Tag ''fr'' \<in> set (elems (AcceptLanguages sample_Config_fr))"
    by (simp add: sample_Config_fr_def elems_def)
  from NewMiddleware_aborts[OF sample_defaulting_fr h2 l2 prod.collapse[symmetric]] mem fr
  have "\<exists>err. fst (NewMiddleware sample_env [Some 2] sample_world_failing) = Panics (PanicErr err)"
    by blast
  moreover note NewMiddleware_aborts[OF sample_defaulting_de h3 l3 prod.collapse[symmetric]]
  ultimately show ?thesis using fr by (simp add: sample_fails_fr sample_fails_de)
qed


section \<open>Construction works on the caller's configuration\<close>

lemma documented_defaults_Loader: "\<exists>ld. Loader (documented_defaults env c) = Some ld"
  by (cases "Loader c") (simp_all add: documented_defaults_def)

lemma documented_defaults_idem:
  "documented_defaults env (documented_defaults env c\<lparr>cfg_bundle := b, localizerMap := m\<rparr>) =
   documented_defaults env c\<lparr>cfg_bundle := b, localizerMap := m\<rparr>"
  by (simp add: documented_defaults_def language_English_def language_Und_def)

lemma NewMiddleware_ptr_Ok:
  assumes h: "heap w a = Some c" and nm: "NewMiddleware env (Some a # rest) w = (Ok mw, w')"
  shows "mw = MiddlewareFunc a \<and>
         (\<exists>b m. heap w' = (heap w)(a \<mapsto> documented_defaults env c\<lparr>cfg_bundle := Some b, localizerMap := Some m\<rparr>))"
proof -
  let ?c = "documented_defaults env c"
  let ?w1 = "w\<lparr>heap := (heap w)(a \<mapsto> ?c)\<rparr>"
  have cd: "configDefault env (Some a # rest) w = (Ok a, ?w1)" using h by (rule configDefault_ptr)
  have h1: "heap ?w1 a = Some ?c" by simp
  obtain ld where ld: "Loader ?c = Some ld" using documented_defaults_Loader by blast
  obtain e b' t where lf: "load_files env ld (map (bundle_file_path env ?c) (elems (AcceptLanguages ?c)))
               (fresh_bundle env ?c) = (e, b', t)"
    by (cases "load_files env ld (map (bundle_file_path env ?c) (elems (AcceptLanguages ?c)))
               (fresh_bundle env ?c)")
  note NM = NewMiddleware_load_files[OF cd h1 ld lf]
  show ?thesis
  proof (cases e)
    case (Some err)
    with NM nm show ?thesis by simp
  next
    case None
    with NM nm have "mw = MiddlewareFunc a"
      "heap w' = (heap ?w1)(a \<mapsto> ?c\<lparr>cfg_bundle := Some b',
                 localizerMap := Some (new_localizerMap env (?c\<lparr>cfg_bundle := Some b'\<rparr>))\<rparr>)"
      by auto
    then have "mw = MiddlewareFunc a \<and>
      heap w' = (heap w)(a \<mapsto> ?c\<lparr>cfg_bundle := Some b',
                 localizerMap := Some (new_localizerMap env (?c\<lparr>cfg_bundle := Some b'\<rparr>))\<rparr>)"
      by simp
    then show ?thesis by blast
  qed
qed

text \<open>
  Claim C9. Given a configuration, defaulting and construction write into the caller's
  struct and hand the same pointer on: defaulting returns the caller's address with the
  defaults filled in there; a construction that returns has written the bundle and the
  localizer map into that same struct, has changed no other struct and allocated none,
  and returns a middleware that stores the caller's pointer in each context. A second
  construction with the same pointer yields a middleware holding the same pointer and
  overwrites the bundle and the map the first one reads.
\<close>

theorem NewMiddleware_in_place:
  assumes h: "heap w a = Some c" and nm: "NewMiddleware env (Some a # rest) w = (Ok mw, w')"
  shows "configDefault env (Some a # rest) w =
           (Ok a, w\<lparr>heap := (heap w)(a \<mapsto> documented_defaults env c)\<rparr>) \<and>
         mw = MiddlewareFunc a \<and>
         Get (run_middleware mw (\<lambda>c. c) ctx) localsKey = Config_ptr (Some a) \<and>
         (\<exists>b m. heap w' =
            (heap w)(a \<mapsto> documented_defaults env c\<lparr>cfg_bundle := Some b, localizerMap := Some m\<rparr>)) \<and>
         (\<forall>rest2 mw2 w2.
            NewMiddleware env (Some a # rest2) w' = (Ok mw2, w2) \<longrightarrow>
            mw2 = mw \<and>
            (\<exists>b2 m2. heap w2 =
               (heap w)(a \<mapsto> documented_defaults env c\<lparr>cfg_bundle := Some b2, localizerMap := Some m2\<rparr>)))"
proof -
  from NewMiddleware_ptr_Ok[OF h nm] obtain b m where
    mw: "mw = MiddlewareFunc a" and
    hp: "heap w' = (heap w)(a \<mapsto> documented_defaults env c\<lparr>cfg_bundle := Some b, localizerMap := Some m\<rparr>)"
    by blast
  let ?c' = "documented_defaults env c\<lparr>cfg_bundle := Some b, localizerMap := Some m\<rparr>"
  have h': "heap w' a = Some ?c'" using hp by simp
  have second: "mw2 = mw \<and>
            (\<exists>b2 m2. heap w2 =
               (heap w)(a \<mapsto> documented_defaults env c\<lparr>cfg_bundle := Some b2, localizerMap := Some m2\<rparr>))"
    if "NewMiddleware env (Some a # rest2) w' = (Ok mw2, w2)" for rest2 mw2 w2
  proof -
    from NewMiddleware_ptr_Ok[OF h' that] obtain b2 m2 where
      "mw2 = MiddlewareFunc a"
      "heap w2 = (heap w')(a \<mapsto> documented_defaults env ?c'\<lparr>cfg_bundle := Some b2, localizerMap := Some m2\<rparr>)"
      by blast
    then have "mw2 = mw \<and> heap w2 =
        (heap w)(a \<mapsto> documented_defaults env c\<lparr>cfg_bundle := Some b2, localizerMap := Some m2\<rparr>)"
      using mw hp by (simp add: documented_defaults_idem)
    then show ?thesis by blast
  qed
  have g: "Get (run_middleware mw (\<lambda>c. c) ctx) localsKey = Config_ptr (Some a)"
    using mw by (simp add: run_middleware_def Set_def Get_def)
  from configDefault_ptr[OF h] mw g hp second show ?thesis by blast
qed

theorem NewMiddleware_in_place_witness:
  "heap sample_world 1 = Some sample_Config \<and>
   heap sample_world_built 1 = Some sample_Config_built \<and>
   heap sample_world_built ConfigDefault = heap sample_world ConfigDefault \<and>
   Get (run_middleware (MiddlewareFunc 1) (\<lambda>c. c) (context_of request_plain)) localsKey =
     Config_ptr (Some 1) \<and>
   fst (NewMiddleware sample_env [Some 1] sample_world_built) = Ok (MiddlewareFunc 1)"
proof -
  have h: "heap sample_world 1 = Some sample_Config" by (simp add: sample_world_def)
  have second: "fst (NewMiddleware sample_env [Some 1] sample_world_built) = Ok (MiddlewareFunc 1)"
    by (simp add: NewMiddleware_def configDefault_def loadMessages_def loadMessage_def
          initLocalizerMap_def new_localizerMap_def elems_def sample_defs Let_def)
  from NewMiddleware_in_place[OF h sample_construction, of "context_of request_plain"]
  have "Get (run_middleware (MiddlewareFunc 1) (\<lambda>c. c) (context_of request_plain)) localsKey =
     Config_ptr (Some 1)" by blast
  with h second show ?thesis
    by (simp add: sample_world_built_def sample_world_def ConfigDefault_def)
qed

section \<open>The keys of the localizer map\<close>

lemma localizer_keys_bundle [simp]: "localizer_keys (c\<lparr>cfg_bundle := b\<rparr>) = localizer_keys c"
  by (simp add: localizer_keys_def)

lemma localizer_keys_map [simp]: "localizer_keys (c\<lparr>localizerMap := m\<rparr>) = localizer_keys c"
  by (simp add: localizer_keys_def)

lemma documented_defaults_keys:
  "DefaultLanguage c \<noteq> language_Und \<Longrightarrow> AcceptLanguages c \<noteq> None \<Longrightarrow>
   localizer_keys (documented_defaults env c) = localizer_keys c"
  by (auto simp: localizer_keys_def documented_defaults_def)

lemma documented_defaults_set:
  "DefaultLanguage (documented_defaults env c) \<noteq> language_Und"
  "AcceptLanguages (documented_defaults env c) \<noteq> None"
  "localizerMap (documented_defaults env c) = localizerMap c"
  by (simp_all add: documented_defaults_def language_English_def language_Und_def)

text \<open>What one call of \<^verbatim>\<open>NewMiddleware\<close> does to the heap: nothing, or it rewrites the
  one configuration it was given.\<close>

lemma NewMiddleware_heap:
  assumes nm: "NewMiddleware env config w = (r, w')"
  shows "heap w' = heap w \<or>
         (\<exists>a c0 c b.
            fst (configDefault env config w) = Ok a \<and> heap w a = Some c0 \<and>
            (c = c0 \<and> config = [] \<or> c = documented_defaults env c0 \<and> config \<noteq> []) \<and>
            (heap w' = (heap w)(a \<mapsto> c\<lparr>cfg_bundle := b\<rparr>) \<and> (\<exists>pv. r = Panics pv) \<or>
             heap w' = (heap w)(a \<mapsto> c\<lparr>cfg_bundle := b,
                 localizerMap := Some (new_localizerMap env (c\<lparr>cfg_bundle := b\<rparr>))\<rparr>) \<and>
             r = Ok (MiddlewareFunc a)))"
proof -
  obtain r1 w1 where cd: "configDefault env config w = (r1, w1)"
    by (cases "configDefault env config w")
  from configDefault_cases[OF cd] consider
      (panic) "r1 = Panics NilDereference" "w1 = w"
    | (shared) "config = []" "r1 = Ok ConfigDefault" "w1 = w"
    | (given) a rest c0 where "config = Some a # rest" "heap w a = Some c0" "r1 = Ok a"
        "w1 = w\<lparr>heap := (heap w)(a \<mapsto> documented_defaults env c0)\<rparr>"
    by blast
  then show ?thesis
  proof cases
    case panic
    with cd nm have "w' = w" by (simp add: NewMiddleware_configDefault_panics)
    then show ?thesis by simp
  next
    case shared
    show ?thesis
    proof (cases "heap w ConfigDefault")
      case None
      with cd shared nm have "w' = w" by (simp add: NewMiddleware_dangling)
      then show ?thesis by simp
    next
      case (Some c0)
      from NewMiddleware_frame[OF cd[unfolded shared(2,3)] Some nm] cd shared Some
      show ?thesis by auto
    qed
  next
    case given
    let ?c = "documented_defaults env c0"
    have h1: "heap w1 a = Some ?c" using given by simp
    from NewMiddleware_frame[OF cd[unfolded given(3)] h1 nm]
    have "(\<exists>pv b. r = Panics pv \<and> heap w' = (heap w)(a \<mapsto> ?c\<lparr>cfg_bundle := b\<rparr>)) \<or>
         (\<exists>b. r = Ok (MiddlewareFunc a) \<and>
              heap w' = (heap w)(a \<mapsto> ?c\<lparr>cfg_bundle := b,
                 localizerMap := Some (new_localizerMap env (?c\<lparr>cfg_bundle := b\<rparr>))\<rparr>))"
      using given(4) by simp
    with cd given show ?thesis by auto
  qed
qed

lemma keys_ok_heap: "heap w' = heap w \<Longrightarrow> keys_ok w \<Longrightarrow> keys_ok w'"
  unfolding keys_ok_def by (erule ssubst) assumption

lemma keys_ok_update:
  assumes ok: "keys_ok w" and hp: "heap w' = (heap w)(a \<mapsto> c')"
    and shared: "a = ConfigDefault \<Longrightarrow> DefaultLanguage c' \<noteq> language_Und \<and> AcceptLanguages c' \<noteq> None"
    and keyed: "\<And>m. localizerMap c' = Some m \<Longrightarrow>
        DefaultLanguage c' \<noteq> language_Und \<and> AcceptLanguages c' \<noteq> None \<and> dom m = localizer_keys c'"
  shows "keys_ok w'"
proof -
  have one: "\<exists>c0. heap w' ConfigDefault = Some c0 \<and> DefaultLanguage c0 \<noteq> language_Und \<and>
           AcceptLanguages c0 \<noteq> None"
  proof (cases "a = ConfigDefault")
    case True
    with hp shared show ?thesis by simp
  next
    case False
    with hp ok show ?thesis by (simp add: keys_ok_def)
  qed
  have two: "DefaultLanguage c \<noteq> language_Und \<and> AcceptLanguages c \<noteq> None \<and> dom m = localizer_keys c"
    if "heap w' x = Some c" "localizerMap c = Some m" for x c m
  proof (cases "x = a")
    case True
    with hp that have "c = c'" by simp
    with keyed that show ?thesis by simp
  next
    case False
    with hp that have "heap w x = Some c" by simp
    with ok that show ?thesis unfolding keys_ok_def by blast
  qed
  from one two show ?thesis unfolding keys_ok_def by blast
qed

lemma NewMiddleware_keys_ok:
  assumes ok: "keys_ok w" and nm: "NewMiddleware env config w = (r, w')"
  shows "keys_ok w'"
proof -
  from NewMiddleware_heap[OF nm] consider
      (same) "heap w' = heap w"
    | (rewritten) a c0 c b where
        "fst (configDefault env config w) = Ok a" "heap w a = Some c0"
        "c = c0 \<and> config = [] \<or> c = documented_defaults env c0 \<and> config \<noteq> []"
        "heap w' = (heap w)(a \<mapsto> c\<lparr>cfg_bundle := b\<rparr>) \<or>
         heap w' = (heap w)(a \<mapsto> c\<lparr>cfg_bundle := b,
                 localizerMap := Some (new_localizerMap env (c\<lparr>cfg_bundle := b\<rparr>))\<rparr>)"
    by blast
  then show ?thesis
  proof cases
    case same
    then show ?thesis using ok by (rule keys_ok_heap)
  next
    case rewritten
    have set_if_shared: "DefaultLanguage c \<noteq> language_Und \<and> AcceptLanguages c \<noteq> None"
      if "a = ConfigDefault \<or> config \<noteq> []"
    proof (cases "config = []")
      case True
      with rewritten(3) that have "c = c0" "a = ConfigDefault" by auto
      with ok rewritten(2) show ?thesis by (auto simp: keys_ok_def)
    next
      case False
      with rewritten(3) have "c = documented_defaults env c0" by auto
      then show ?thesis by (simp add: documented_defaults_set)
    qed
    have a_shared: "config = [] \<Longrightarrow> a = ConfigDefault"
      using rewritten(1) by (simp add: configDefault_nil)
    have always_set: "DefaultLanguage c \<noteq> language_Und \<and> AcceptLanguages c \<noteq> None"
      using set_if_shared a_shared by blast
    have old_map: "dom m = localizer_keys c" "localizerMap c0 = Some m" if "localizerMap c = Some m" for m
    proof -
      from rewritten(3) that show m0: "localizerMap c0 = Some m"
        by (auto simp: documented_defaults_set)
      with ok rewritten(2) have k: "DefaultLanguage c0 \<noteq> language_Und" "AcceptLanguages c0 \<noteq> None"
        "dom m = localizer_keys c0" unfolding keys_ok_def by blast+
      from rewritten(3) k(1,2) have "localizer_keys c = localizer_keys c0"
        by (auto simp: documented_defaults_keys)
      with k(3) show "dom m = localizer_keys c" by simp
    qed
    from rewritten(4) show ?thesis
    proof
      assume hp: "heap w' = (heap w)(a \<mapsto> c\<lparr>cfg_bundle := b\<rparr>)"
      show ?thesis
        by (rule keys_ok_update[OF ok hp]) (use always_set old_map in auto)
    next
      assume hp: "heap w' = (heap w)(a \<mapsto> c\<lparr>cfg_bundle := b,
                 localizerMap := Some (new_localizerMap env (c\<lparr>cfg_bundle := b\<rparr>))\<rparr>)"
      show ?thesis
        by (rule keys_ok_update[OF ok hp]) (use always_set in \<open>auto simp: dom_new_localizerMap\<close>)
    qed
  qed
qed

lemma initial_keys_ok: "initial env w \<Longrightarrow> keys_ok w"
  unfolding initial_def keys_ok_def
  by (auto simp: ConfigDefault_value_def language_English_def language_Und_def ran_def)

lemma reachable_keys_ok: "reachable env w \<Longrightarrow> keys_ok w"
proof (induction rule: reachable.induct)
  case (start w)
  then show ?case by (rule initial_keys_ok)
next
  case (allocate w a c)
  have hp: "heap (w\<lparr>heap := (heap w)(a \<mapsto> c)\<rparr>) = (heap w)(a \<mapsto> c)" by simp
  from allocate have na: "a \<noteq> ConfigDefault" by (auto simp: keys_ok_def)
  show ?case
    by (rule keys_ok_update[OF allocate.IH hp]) (use na allocate in auto)
next
  case (construct w config r w')
  then show ?case by (auto intro: NewMiddleware_keys_ok)
qed


lemma NewMiddleware_keeps_keys:
  assumes ok: "keys_ok w" and h: "heap w a = Some c" and m: "localizerMap c = Some m"
    and nm: "NewMiddleware env config w = (r, w')"
  shows "(\<exists>c' m'. heap w' a = Some c' \<and> localizerMap c' = Some m' \<and> dom m' = dom m) \<and>
         (fst (configDefault env config w) \<noteq> Ok a \<longrightarrow> heap w' a = heap w a)"
proof -
  from ok h m have k: "DefaultLanguage c \<noteq> language_Und" "AcceptLanguages c \<noteq> None"
    "dom m = localizer_keys c" unfolding keys_ok_def by blast+
  from NewMiddleware_heap[OF nm] consider
      (same) "heap w' = heap w"
    | (rewritten) a2 c0 c2 b where
        "fst (configDefault env config w) = Ok a2" "heap w a2 = Some c0"
        "c2 = c0 \<and> config = [] \<or> c2 = documented_defaults env c0 \<and> config \<noteq> []"
        "heap w' = (heap w)(a2 \<mapsto> c2\<lparr>cfg_bundle := b\<rparr>) \<or>
         heap w' = (heap w)(a2 \<mapsto> c2\<lparr>cfg_bundle := b,
                 localizerMap := Some (new_localizerMap env (c2\<lparr>cfg_bundle := b\<rparr>))\<rparr>)"
    by blast
  then show ?thesis
  proof cases
    case same
    with h m show ?thesis by simp
  next
    case rewritten
    show ?thesis
    proof (cases "a2 = a")
      case False
      with rewritten(4) have "heap w' a = heap w a" by auto
      with h m show ?thesis by simp
    next
      case True
      with rewritten(2) h have c0: "c0 = c" by simp
      with rewritten(3) k have keys: "localizer_keys c2 = localizer_keys c"
        and lm: "localizerMap c2 = Some m"
        using m by (auto simp: documented_defaults_keys documented_defaults_set)
      from rewritten(4) have "\<exists>c' m'. heap w' a = Some c' \<and> localizerMap c' = Some m' \<and> dom m' = dom m"
      proof
        assume "heap w' = (heap w)(a2 \<mapsto> c2\<lparr>cfg_bundle := b\<rparr>)"
        with True lm show ?thesis by simp
      next
        assume "heap w' = (heap w)(a2 \<mapsto> c2\<lparr>cfg_bundle := b,
                 localizerMap := Some (new_localizerMap env (c2\<lparr>cfg_bundle := b\<rparr>))\<rparr>)"
        with True keys k(3) show ?thesis by (simp add: dom_new_localizerMap)
      qed
      with rewritten(1) True show ?thesis by simp
    qed
  qed
qed

lemma sample_initial: "initial sample_env sample_world"
  by (auto simp: initial_def sample_world_def sample_Config_def ConfigDefault_value_def
        ConfigDefault_def ran_def split: if_splits)

lemma sample_reachable: "reachable sample_env sample_world_built"
  using reachable.construct[OF reachable.start[OF sample_initial] sample_construction] .

text \<open>
  Claim C3. When a construction has returned, the configuration has a localizer map.
  In every reachable state, every localizer map has an entry for the default language
  of its configuration and its keys are exactly the accepted languages and the default
  language. No later step adds or removes a key of a map: a construction on another
  configuration leaves the configuration untouched, one on the same configuration
  installs a map built afresh with the same keys, and serving a request
  (\<^verbatim>\<open>Localize\<close>, \<^verbatim>\<open>MustLocalize\<close>, the middleware's handler) changes no state at all.
\<close>

theorem localizer_keys_invariant:
  "(reachable env w \<and> heap w a = Some c \<and> localizerMap c = Some m \<longrightarrow>
      String (DefaultLanguage c) \<in> dom m \<and>
      dom m = String ` set (elems (AcceptLanguages c)) \<union> {String (DefaultLanguage c)}) \<and>
   (reachable env w \<and> NewMiddleware env config w = (Ok mw, w') \<longrightarrow>
      reachable env w' \<and> (\<exists>c m. heap w' (captured_cfg mw) = Some c \<and> localizerMap c = Some m)) \<and>
   (reachable env w \<and> heap w a = Some c \<and> localizerMap c = Some m \<and>
    NewMiddleware env config w = (r, w') \<longrightarrow>
      (\<exists>c' m'. heap w' a = Some c' \<and> localizerMap c' = Some m' \<and> dom m' = dom m) \<and>
      (fst (configDefault env config w) \<noteq> Ok a \<longrightarrow> heap w' a = heap w a))"
proof (intro conjI impI)
  assume a: "reachable env w \<and> heap w a = Some c \<and> localizerMap c = Some m"
  then have "keys_ok w" by (blast intro: reachable_keys_ok)
  with a have d: "dom m = localizer_keys c" unfolding keys_ok_def by blast
  then show "dom m = String ` set (elems (AcceptLanguages c)) \<union> {String (DefaultLanguage c)}"
    by (simp add: localizer_keys_def)
  from d show "String (DefaultLanguage c) \<in> dom m" by (simp add: localizer_keys_def)
next
  assume a: "reachable env w \<and> NewMiddleware env config w = (Ok mw, w')"
  then show "reachable env w'" by (auto intro: reachable.construct)
  from a NewMiddleware_Ok[of env config w mw w']
  show "\<exists>c m. heap w' (captured_cfg mw) = Some c \<and> localizerMap c = Some m" by auto
next
  assume a: "reachable env w \<and> heap w a = Some c \<and> localizerMap c = Some m \<and>
    NewMiddleware env config w = (r, w')"
  then have ok: "keys_ok w" by (blast intro: reachable_keys_ok)
  from a NewMiddleware_keeps_keys[OF ok, of a c m env config r w']
  show "\<exists>c' m'. heap w' a = Some c' \<and> localizerMap c' = Some m' \<and> dom m' = dom m" by blast
next
  assume a: "reachable env w \<and> heap w a = Some c \<and> localizerMap c = Some m \<and>
    NewMiddleware env config w = (r, w')"
    and b: "fst (configDefault env config w) \<noteq> Ok a"
  from a have ok: "keys_ok w" by (blast intro: reachable_keys_ok)
  from a b NewMiddleware_keeps_keys[OF ok, of a c m env config r w']
  show "heap w' a = heap w a" by blast
qed

theorem localizer_keys_invariant_witness:
  "initial sample_env sample_world \<and> reachable sample_env sample_world_built \<and>
   heap sample_world_built 1 = Some sample_Config_built \<and>
   (\<exists>m. localizerMap sample_Config_built = Some m \<and> dom m = {''zh'', ''en''} \<and> ''en'' \<in> dom m)"
proof -
  have h: "heap sample_world_built 1 = Some sample_Config_built"
    by (simp add: sample_world_built_def)
  have m: "localizerMap sample_Config_built = Some [''zh'' \<mapsto> ''zh'', ''en'' \<mapsto> ''en'']"
    by (simp add: sample_Config_built_def)
  from localizer_keys_invariant[of sample_env sample_world_built 1 sample_Config_built
      "[''zh'' \<mapsto> ''zh'', ''en'' \<mapsto> ''en'']"] sample_reachable h m
  have "String (DefaultLanguage sample_Config_built) \<in> dom [''zh'' \<mapsto> ''zh'', ''en'' \<mapsto> ''en'']"
    "dom [''zh'' \<mapsto> ''zh'', ''en'' \<mapsto> ''en''] =
       String ` set (elems (AcceptLanguages sample_Config_built)) \<union>
       {String (DefaultLanguage sample_Config_built)}"
    by blast+
  then have "dom [''zh'' \<mapsto> ''zh'', ''en'' \<mapsto> ''en''] = {''zh'', ''en''}"
    "''en'' \<in> dom [''zh'' \<mapsto> ''zh'', ''en'' \<mapsto> ''en'']"
    by (auto simp: sample_Config_built_def elems_def language_English_def language_Chinese_def)
  with sample_initial sample_reachable h m show ?thesis by blast
qed

end
